theory Spec2Isabelle
  imports Main "HOL-Library.Word"
begin

unbundle bit_operations_syntax

section \<open>Data model\<close>

type_synonym byte = "8 word"

text \<open>
  The sentinel errors of the driver, the errors of the Go library that the packet code
  passes on, and \<open>RuntimePanic\<close> for a Go run-time panic (an index or slice bound out of
  range), which the model returns as a value. \<open>NotInSpec\<close> is what a helper that is
  modelled from the specification returns for an input about which the specification is
  silent.
\<close>

datatype error =
    ErrInvalidConn
  | ErrMalformPkt
  | ErrPktSync
  | ErrPktSyncMul
  | ErrPktTooLarge
  | ErrBusyBuffer
  | errBadConnNoWrite
  | ErrBadConn
  | MySQLError nat "byte list" "byte list"
  | Errorf string
  | EOF
  | ErrUnexpectedEOF
  | IOError string
  | Canceled
  | ErrRange
  | ErrSyntax
  | RuntimePanic
  | NotInSpec

text \<open>
  A Go slice \<open>[]byte\<close>: the part of its backing array from the slice's first element up
  to its capacity, and its length. \<open>cap s\<close> is the length of that array, the visible
  elements are the first \<open>len s\<close> of it.
\<close>

type_synonym slice = "byte list \<times> nat"

definition arr :: "slice \<Rightarrow> byte list" where
  "arr s = fst s"

definition len :: "slice \<Rightarrow> nat" where
  "len s = snd s"

definition cap :: "slice \<Rightarrow> nat" where
  "cap s = length (fst s)"

definition bytes :: "slice \<Rightarrow> byte list" where
  "bytes s = take (snd s) (fst s)"

text \<open>\<open>make([]byte, n)\<close>: a fresh zeroed array, length and capacity \<open>n\<close>.\<close>

definition make_bytes :: "nat \<Rightarrow> byte list" where
  "make_bytes n = replicate n 0"

text \<open>
  Modelled from the spec: const.go is not among the sources; section 6 of the
  specification gives \<open>maxPacketSize = 16_777_215\<close> (2^24 - 1).
\<close>

definition maxPacketSize :: int where
  "maxPacketSize = 2 ^ 24 - 1"

section \<open>Framing buffer (buffer.go)\<close>

definition defaultBufSize :: int where
  "defaultBufSize = 4 * 1024"

text \<open>
  The cached cap of 256 KiB. In buffer.go the constant is commented out; the unnamed
  sibling file declares it. No function of either file reads it.
\<close>

definition maxCachedBufSize :: int where
  "maxCachedBufSize = 256 * 1024"

text \<open>
  \<open>buffer\<close>: field \<open>buf\<close> is the primary byte slice, whose length and capacity are equal
  (so it is its backing array); \<open>lengthb\<close> is the field \<open>length\<close> of the source, the
  number of bytes of a live buffer. The socket, the timeout and the double-buffering
  fields play no part in the functions below.
\<close>

record buffer =
  buf :: "byte list"
  lengthb :: int

definition newBuffer :: buffer where
  "newBuffer = \<lparr>buf = make_bytes (nat defaultBufSize), lengthb = 0\<rparr>"

text \<open>
  \<open>takeBuffer\<close> returns the buffer as it leaves it together with the slice or the error.
  A negative length or one above the capacity makes the slice expression panic.
\<close>

definition takeBuffer :: "buffer \<Rightarrow> int \<Rightarrow> buffer \<times> (error + slice)" where
  "takeBuffer b n =
     (if lengthb b > 0 then (b, Inl ErrBusyBuffer)
      else if n \<le> int (length (buf b)) then
        (if n < 0 then (b, Inl RuntimePanic) else (b, Inr (buf b, nat n)))
      else if n < maxPacketSize then
        (b\<lparr>buf := make_bytes (nat n)\<rparr>, Inr (make_bytes (nat n), nat n))
      else (b, Inr (make_bytes (nat n), nat n)))"

text \<open>
  \<open>takeSmallBuffer\<close>: the busy test, then the slice expression \<open>b.buf[:length]\<close>, which
  panics when \<open>length\<close> is negative or above the capacity of \<open>b.buf\<close>. The buffer itself
  is not written.
\<close>

definition takeSmallBuffer :: "buffer \<Rightarrow> int \<Rightarrow> error + slice" where
  "takeSmallBuffer b n =
     (if lengthb b > 0 then Inl ErrBusyBuffer
      else if n < 0 \<or> n > int (length (buf b)) then Inl RuntimePanic
      else Inr (buf b, nat n))"

definition takeCompleteBuffer :: "buffer \<Rightarrow> error + slice" where
  "takeCompleteBuffer b =
     (if lengthb b > 0 then Inl ErrBusyBuffer
      else Inr (buf b, length (buf b)))"

text \<open>\<open>store\<close>: \<open>b.buf = buf[:cap(buf)]\<close> makes the whole backing array the primary buffer.\<close>

definition store :: "buffer \<Rightarrow> slice \<Rightarrow> buffer \<times> error option" where
  "store b s =
     (if lengthb b > 0 then (b, Some ErrBusyBuffer)
      else if int (cap s) \<le> maxPacketSize \<and> cap s > length (buf b) then
        (b\<lparr>buf := arr s\<rparr>, None)
      else (b, None))"

section \<open>Connection (packets.go)\<close>

text \<open>
  What the write loop reports for one request of \<open>writePacket\<close>: the result \<open>{n, err}\<close> of
  \<open>netConn.Write\<close>, or the closing of \<open>closech\<close> winning one of the two \<open>select\<close>
  statements (before the data is handed over, or before the result arrives).
\<close>

datatype writeEvent =
    Written int "error option"
  | ClosedOnSend
  | ClosedOnResult

text \<open>
  \<open>mysqlConn\<close>, with the socket made explicit: \<open>rx\<close> are the bytes the server still
  sends, \<open>wire\<close> the bytes the socket has accepted, \<open>netWrite i d\<close> what the \<open>i\<close>-th write
  request, carrying the bytes \<open>d\<close>, leads to, and \<open>nwrites\<close> the number of requests made.
  \<open>canceled\<close> is the value of the atomic cancellation slot, \<open>closed\<close> the closed latch,
  \<open>connBuf\<close> the field \<open>buf\<close>, \<open>affectedRows\<close> and \<open>insertIds\<close> the field \<open>result\<close>,
  \<open>parseTime\<close> and \<open>rejectReadOnly\<close> the two configuration values the packet code reads.
\<close>

record mysqlConn =
  sequence :: byte
  maxAllowedPacket :: int
  status :: "16 word"
  closed :: bool
  canceled :: "error option"
  connBuf :: buffer
  rx :: "byte list"
  wire :: "byte list"
  netWrite :: "nat \<Rightarrow> byte list \<Rightarrow> writeEvent"
  nwrites :: nat
  parseTime :: bool
  rejectReadOnly :: bool
  affectedRows :: "int list"
  insertIds :: "int list"

text \<open>
  Modelled from the spec: connection.go, with \<open>cleanup\<close>, \<open>Close\<close> and \<open>isBroken\<close>, is not
  among the sources. The specification gives the connection a closed latch that closing
  sets and that marks the connection broken ("I/O/framing errors close the connection
  before returning", "any I/O error, sequence mismatch, or malformed packet marks the
  connection broken").
\<close>

definition cleanup :: "mysqlConn \<Rightarrow> mysqlConn" where
  "cleanup mc = mc\<lparr>closed := True\<rparr>"

definition Close :: "mysqlConn \<Rightarrow> mysqlConn" where
  "Close mc = cleanup mc"

definition isBroken :: "mysqlConn \<Rightarrow> bool" where
  "isBroken mc = closed mc"

subsection \<open>writePacket\<close>

text \<open>
  One round of the loop of \<open>writePacket\<close>, with the remaining \<open>pktLen\<close> and \<open>data\<close>. The
  header is written into the first four bytes of \<open>data\<close> (a slice shorter than that makes
  the index expression panic), then the whole of \<open>data\<close> is sent to the write loop, which
  passes it to \<open>netConn.Write\<close>; the socket accepts the first \<open>n\<close> bytes of it.
\<close>

definition putHeader :: "int \<Rightarrow> byte \<Rightarrow> byte list \<Rightarrow> byte list" where
  "putHeader pktLen seq data =
     (if pktLen \<ge> maxPacketSize
      then data[0 := 0xff, 1 := 0xff, 2 := 0xff, 3 := seq]
      else data[0 := word_of_int pktLen, 1 := word_of_int (drop_bit 8 pktLen),
                2 := word_of_int (drop_bit 16 pktLen), 3 := seq])"

function writePacketLoop :: "mysqlConn \<Rightarrow> int \<Rightarrow> byte list \<Rightarrow> mysqlConn \<times> error option" where
  "writePacketLoop mc pktLen data =
     (if length data < 4 then (mc, Some RuntimePanic)
      else
        let size = (if pktLen \<ge> maxPacketSize then maxPacketSize else pktLen);
            data = putHeader pktLen (sequence mc) data
        in case netWrite mc (nwrites mc) data of
             ClosedOnSend \<Rightarrow> (mc, Some ErrInvalidConn)
           | ClosedOnResult \<Rightarrow> (mc\<lparr>nwrites := Suc (nwrites mc)\<rparr>, Some ErrInvalidConn)
           | Written n err \<Rightarrow>
               let mc = mc\<lparr>wire := wire mc @ take (nat n) data, nwrites := Suc (nwrites mc)\<rparr>
               in if err = None \<and> n = 4 + size then
                    let mc = mc\<lparr>sequence := sequence mc + 1\<rparr>
                    in if size \<noteq> maxPacketSize then (mc, None)
                       else if int (length data) < size then (mc, Some RuntimePanic)
                       else writePacketLoop mc (pktLen - size) (drop (nat size) data)
                  else if err = None then (cleanup mc, Some ErrInvalidConn)
                  else (case canceled mc of
                          Some cerr \<Rightarrow> (mc, Some cerr)
                        | None \<Rightarrow>
                            if n = 0 \<and> pktLen = int (length data) - 4
                            then (mc, Some errBadConnNoWrite)
                            else (cleanup mc, Some ErrInvalidConn)))"
  by pat_completeness auto
termination
  by (relation "measure (\<lambda>(mc, pktLen, data). length data)")
     (auto simp: putHeader_def maxPacketSize_def)

declare writePacketLoop.simps [simp del]

definition writePacket :: "mysqlConn \<Rightarrow> byte list \<Rightarrow> mysqlConn \<times> error option" where
  "writePacket mc data =
     (let pktLen = int (length data) - 4
      in if pktLen > maxAllowedPacket mc then (mc, Some ErrPktTooLarge)
         else writePacketLoop mc pktLen data)"

text \<open>A socket that accepts every write in full.\<close>

definition acceptAll :: "nat \<Rightarrow> byte list \<Rightarrow> writeEvent" where
  "acceptAll i d = Written (int (length d)) None"

text \<open>
  A socket that reports \<open>n\<close> bytes and no error for every write, and one that reports
  \<open>n\<close> bytes and an error.
\<close>

definition shortWrite :: "int \<Rightarrow> nat \<Rightarrow> byte list \<Rightarrow> writeEvent" where
  "shortWrite n i d = Written n None"

definition brokenPipe :: "int \<Rightarrow> nat \<Rightarrow> byte list \<Rightarrow> writeEvent" where
  "brokenPipe n i d = Written n (Some (IOError ''broken pipe''))"

text \<open>
  The physical packets that a byte stream consists of, each as the pair of its length and
  its sequence byte, with the header read as \<open>readPacket\<close> reads it; \<open>None\<close> when the
  stream does not end on a packet boundary.
\<close>

definition headerLen :: "byte \<Rightarrow> byte \<Rightarrow> byte \<Rightarrow> int" where
  "headerLen b0 b1 b2 =
     uint ((ucast b0 :: 32 word) OR push_bit 8 (ucast b1) OR push_bit 16 (ucast b2))"

fun wireFrames :: "byte list \<Rightarrow> (int \<times> byte) list option" where
  "wireFrames (b0 # b1 # b2 # b3 # rest) =
     (let n = nat (headerLen b0 b1 b2)
      in if n \<le> length rest
         then map_option ((#) (int n, b3)) (wireFrames (drop n rest))
         else None)"
| "wireFrames [] = Some []"
| "wireFrames _ = None"

text \<open>An idle connection on a socket that accepts everything; used for concrete runs.\<close>

definition conn0 :: mysqlConn where
  "conn0 = \<lparr>sequence = 0, maxAllowedPacket = 2 ^ 26, status = 0, closed = False,
     canceled = None, connBuf = newBuffer, rx = [], wire = [], netWrite = acceptAll,
     nwrites = 0, parseTime = False, rejectReadOnly = False, affectedRows = [],
     insertIds = []\<rparr>"

subsection \<open>Packet headers\<close>

lemma bit_ge24:
  assumes "0 \<le> (L::int)" "L < 2 ^ 24" "24 \<le> n"
  shows "\<not> bit L n"
proof -
  have "L < 2 ^ n"
    using assms(2,3) by (smt (verit) power_increasing_iff)
  then show ?thesis
    using assms(1) by (simp add: bit_iff_odd)
qed

lemma headerWord_put:
  assumes "0 \<le> L" "L < 2 ^ 24"
  shows "(ucast (word_of_int L :: byte) :: 32 word)
           OR push_bit 8 (ucast (word_of_int (drop_bit 8 L) :: byte))
           OR push_bit 16 (ucast (word_of_int (drop_bit 16 L) :: byte)) = word_of_int L"
proof (rule bit_word_eqI)
  fix n
  assume "n < LENGTH(32)"
  then show "bit ((ucast (word_of_int L :: byte) :: 32 word)
           OR push_bit 8 (ucast (word_of_int (drop_bit 8 L) :: byte))
           OR push_bit 16 (ucast (word_of_int (drop_bit 16 L) :: byte))) n
         = bit (word_of_int L :: 32 word) n"
    using bit_ge24 [OF assms, of n]
    apply (simp add: bit_simps)
    apply (cases "n < 8"; cases "n < 16"; cases "n < 24"; simp)
     apply arith+
    done
qed

lemma headerLen_put:
  assumes "0 \<le> L" "L < 2 ^ 24"
  shows "headerLen (word_of_int L) (word_of_int (drop_bit 8 L)) (word_of_int (drop_bit 16 L)) = L"
  unfolding headerLen_def headerWord_put [OF assms]
  using assms by (simp add: uint_word_of_int)

lemma headerLen_max: "headerLen 0xff 0xff 0xff = 2 ^ 24 - 1"
  by (simp add: headerLen_def)

lemma headerLen_zero: "headerLen 0 0 0 = 0"
  by (simp add: headerLen_def)

lemma split4:
  "4 \<le> length data \<Longrightarrow> \<exists>b0 b1 b2 b3 rest. data = b0 # b1 # b2 # b3 # rest"
  by (cases data; cases "tl data"; cases "tl (tl data)"; cases "tl (tl (tl data))") auto

lemma putHeader_cons:
  "putHeader L s (b0 # b1 # b2 # b3 # rest) =
     (if L \<ge> maxPacketSize then 0xff # 0xff # 0xff # s # rest
      else word_of_int L # word_of_int (drop_bit 8 L) # word_of_int (drop_bit 16 L) # s # rest)"
  by (simp add: putHeader_def eval_nat_numeral)

lemma length_putHeader [simp]: "length (putHeader pktLen s data) = length data"
  by (simp add: putHeader_def)

lemma putHeader_split:
  "4 \<le> length data \<Longrightarrow> putHeader pktLen s data =
     (if pktLen \<ge> maxPacketSize then [0xff, 0xff, 0xff, s]
      else [word_of_int pktLen, word_of_int (drop_bit 8 pktLen),
            word_of_int (drop_bit 16 pktLen), s]) @ drop 4 data"
  using split4 [of data] by (auto simp: putHeader_cons)

lemma wireFrames_one:
  assumes "4 \<le> length data" "pktLen = int (length data) - 4" "pktLen < maxPacketSize"
  shows "wireFrames (putHeader pktLen s data) = Some [(pktLen, s)]"
proof -
  have L: "0 \<le> pktLen" "pktLen < 2 ^ 24"
    using assms by (auto simp: maxPacketSize_def)
  obtain b0 b1 b2 b3 rest where d: "data = b0 # b1 # b2 # b3 # rest"
    using split4 [OF assms(1)] by blast
  have n: "nat pktLen = length rest" "int (length rest) = pktLen"
    using assms(2) d by simp_all
  show ?thesis
    using assms(3) by (simp add: d putHeader_cons headerLen_put [OF L] n)
qed

lemma wireFrames_two:
  assumes "int (length data) = 4 + maxPacketSize"
  shows "wireFrames (putHeader maxPacketSize s data @ [0, 0, 0, t])
           = Some [(maxPacketSize, s), (0, t)]"
proof -
  have 4: "4 \<le> length data"
    using assms by (simp add: maxPacketSize_def)
  show ?thesis
    using assms split4 [OF 4]
    by (auto simp: putHeader_cons headerLen_max headerLen_zero maxPacketSize_def)
qed

subsection \<open>Runs of writePacket on a socket that accepts everything\<close>

lemma writePacketLoop_last:
  assumes "netWrite mc = acceptAll" "4 \<le> length data" "pktLen = int (length data) - 4"
    "pktLen < maxPacketSize"
  shows "writePacketLoop mc pktLen data =
    (mc\<lparr>wire := wire mc @ putHeader pktLen (sequence mc) data, nwrites := Suc (nwrites mc),
        sequence := sequence mc + 1\<rparr>, None)"
  using assms by (subst writePacketLoop.simps) (simp add: acceptAll_def Let_def)

lemma writePacketLoop_full:
  assumes "netWrite mc = acceptAll" "int (length data) = 4 + maxPacketSize"
  shows "writePacketLoop mc maxPacketSize data =
    (mc\<lparr>wire := wire mc @ putHeader maxPacketSize (sequence mc) data
                   @ [0, 0, 0, sequence mc + 1],
        nwrites := Suc (Suc (nwrites mc)), sequence := sequence mc + 2\<rparr>, None)"
proof -
  let ?d = "putHeader maxPacketSize (sequence mc) data"
  let ?mc = "mc\<lparr>wire := wire mc @ ?d, nwrites := Suc (nwrites mc),
                 sequence := sequence mc + 1\<rparr>"
  have len: "length (drop (nat maxPacketSize) ?d) = 4"
    using assms(2) by (simp add: maxPacketSize_def)
  have first: "writePacketLoop mc maxPacketSize data
                 = writePacketLoop ?mc 0 (drop (nat maxPacketSize) ?d)"
    using assms
    by (subst writePacketLoop.simps) (simp add: acceptAll_def Let_def maxPacketSize_def)
  have hdr: "putHeader 0 s (drop (nat maxPacketSize) ?d) = [0, 0, 0, s]" for s
    using putHeader_split [of "drop (nat maxPacketSize) ?d" 0 s] len
    by (simp add: maxPacketSize_def)
  have "writePacketLoop ?mc 0 (drop (nat maxPacketSize) ?d) =
     (?mc\<lparr>wire := wire ?mc @ [0, 0, 0, sequence ?mc], nwrites := Suc (nwrites ?mc),
        sequence := sequence ?mc + 1\<rparr>, None)"
    using writePacketLoop_last [of ?mc "drop (nat maxPacketSize) ?d" 0] len assms(1) hdr
    by (simp add: maxPacketSize_def)
  then show ?thesis
    unfolding first by simp
qed

text \<open>
  The loop hands the whole remaining \<open>data\<close> to the socket, not its first \<open>4 + size\<close>
  bytes. A payload longer than \<open>maxPacketSize\<close> therefore goes out in one write behind a
  single header, the byte count that comes back differs from \<open>4 + size\<close>, and
  \<open>writePacket\<close> cleans up and fails.
\<close>

lemma writePacket_split_sends_whole_data:
  assumes "netWrite mc = acceptAll" "int (length data) - 4 > maxPacketSize"
    "int (length data) - 4 \<le> maxAllowedPacket mc"
  shows "writePacket mc data =
    (cleanup (mc\<lparr>wire := wire mc @ [0xff, 0xff, 0xff, sequence mc] @ drop 4 data,
                   nwrites := Suc (nwrites mc)\<rparr>), Some ErrInvalidConn)"
proof -
  have 4: "4 \<le> length data"
    using assms(2) by (simp add: maxPacketSize_def)
  have hdr: "putHeader (int (length data) - 4) (sequence mc) data
               = [0xff, 0xff, 0xff, sequence mc] @ drop 4 data"
    using assms(2) putHeader_split [OF 4, of "int (length data) - 4" "sequence mc"] by simp
  have "writePacket mc data = writePacketLoop mc (int (length data) - 4) data"
    using assms(3) by (simp add: writePacket_def Let_def)
  also have "\<dots> = (cleanup (mc\<lparr>wire := wire mc @ [0xff, 0xff, 0xff, sequence mc] @ drop 4 data,
                   nwrites := Suc (nwrites mc)\<rparr>), Some ErrInvalidConn)"
    using assms(1,2) 4 hdr
    by (subst writePacketLoop.simps) (simp add: acceptAll_def Let_def)
  finally show ?thesis .
qed

subsection \<open>readPacket\<close>

text \<open>
  Modelled from the spec: \<open>readNext\<close> is not among the sources (buffer.go and its sibling
  stop at \<open>store\<close>). Section 4.1 of the specification: \<open>readNext(n)\<close> blocks until \<open>n\<close>
  bytes are available from the socket and yields the next \<open>n\<close> bytes. Here the bytes the
  server sends are the finite list \<open>rx\<close>; when fewer than \<open>n\<close> are left the read fails as
  the socket does when the stream ends.
\<close>

definition readNext :: "mysqlConn \<Rightarrow> int \<Rightarrow> mysqlConn \<times> (error + byte list)" where
  "readNext mc need =
     (if int (length (rx mc)) < need then (mc, Inl ErrUnexpectedEOF)
      else (mc\<lparr>rx := drop (nat need) (rx mc)\<rparr>, Inr (take (nat need) (rx mc))))"

text \<open>
  The loop of \<open>readPacket\<close>; \<open>prevData\<close> is \<open>None\<close> for the nil slice. The length is
  decoded from the header as the source does, with \<open>headerLen\<close>.
\<close>

definition appendPrev :: "byte list option \<Rightarrow> byte list \<Rightarrow> byte list" where
  "appendPrev prevData data = (case prevData of None \<Rightarrow> data | Some p \<Rightarrow> p @ data)"

definition readFailed :: "mysqlConn \<Rightarrow> mysqlConn \<times> (error + byte list)" where
  "readFailed mc =
     (case canceled mc of
        Some cerr \<Rightarrow> (mc, Inl cerr)
      | None \<Rightarrow> (Close mc, Inl ErrInvalidConn))"

function readPacketLoop ::
  "mysqlConn \<Rightarrow> byte list option \<Rightarrow> mysqlConn \<times> (error + byte list)" where
  "readPacketLoop mc prevData =
     (case readNext mc 4 of
        (mc1, Inl err) \<Rightarrow> readFailed mc1
      | (mc1, Inr hdr) \<Rightarrow>
          let pktLen = headerLen (hdr ! 0) (hdr ! 1) (hdr ! 2)
          in if hdr ! 3 \<noteq> sequence mc1 then
               (Close mc1, Inl (if hdr ! 3 > sequence mc1 then ErrPktSyncMul else ErrPktSync))
             else
               let mc2 = mc1\<lparr>sequence := sequence mc1 + 1\<rparr>
               in if pktLen = 0 then
                    (case prevData of
                       None \<Rightarrow> (Close mc2, Inl ErrInvalidConn)
                     | Some p \<Rightarrow> (mc2, Inr p))
                  else
                    (case readNext mc2 pktLen of
                       (mc3, Inl err) \<Rightarrow> readFailed mc3
                     | (mc3, Inr data) \<Rightarrow>
                         if pktLen < maxPacketSize then (mc3, Inr (appendPrev prevData data))
                         else readPacketLoop mc3 (Some (appendPrev prevData data))))"
  by pat_completeness auto
termination
  by (relation "measure (\<lambda>(mc, prevData). length (rx mc))")
     (auto simp: readNext_def split: if_splits)

declare readPacketLoop.simps [simp del]

definition readPacket :: "mysqlConn \<Rightarrow> mysqlConn \<times> (error + byte list)" where
  "readPacket mc = readPacketLoop mc None"

subsection \<open>Protocol constants and the length-encoded codec\<close>

text \<open>
  Modelled from the spec: const.go is not among the sources; section 6 of the
  specification lists the response markers, \<open>SERVER_MORE_RESULTS_EXISTS = 0x0008\<close>, the
  field flag \<open>UNSIGNED = 0x0020\<close>, \<open>COM_STMT_EXECUTE = 0x17\<close>,
  \<open>COM_STMT_SEND_LONG_DATA = 0x18\<close> and the field types by numeric code.
\<close>

definition iOK :: byte where "iOK = 0x00"
definition iLocalInFile :: byte where "iLocalInFile = 0xfb"
definition iEOF :: byte where "iEOF = 0xfe"
definition iERR :: byte where "iERR = 0xff"

definition statusMoreResultsExists :: "16 word" where
  "statusMoreResultsExists = 0x0008"

definition flagUnsigned :: "16 word" where
  "flagUnsigned = 0x0020"

definition comStmtExecute :: byte where "comStmtExecute = 0x17"
definition comStmtSendLongData :: byte where "comStmtSendLongData = 0x18"

definition fieldTypeDecimal :: byte where "fieldTypeDecimal = 0"
definition fieldTypeTiny :: byte where "fieldTypeTiny = 1"
definition fieldTypeShort :: byte where "fieldTypeShort = 2"
definition fieldTypeLong :: byte where "fieldTypeLong = 3"
definition fieldTypeFloat :: byte where "fieldTypeFloat = 4"
definition fieldTypeDouble :: byte where "fieldTypeDouble = 5"
definition fieldTypeNULL :: byte where "fieldTypeNULL = 6"
definition fieldTypeTimestamp :: byte where "fieldTypeTimestamp = 7"
definition fieldTypeLongLong :: byte where "fieldTypeLongLong = 8"
definition fieldTypeInt24 :: byte where "fieldTypeInt24 = 9"
definition fieldTypeDate :: byte where "fieldTypeDate = 10"
definition fieldTypeTime :: byte where "fieldTypeTime = 11"
definition fieldTypeDateTime :: byte where "fieldTypeDateTime = 12"
definition fieldTypeYear :: byte where "fieldTypeYear = 13"
definition fieldTypeNewDate :: byte where "fieldTypeNewDate = 14"
definition fieldTypeVarChar :: byte where "fieldTypeVarChar = 15"
definition fieldTypeBit :: byte where "fieldTypeBit = 16"
definition fieldTypeJSON :: byte where "fieldTypeJSON = 245"
definition fieldTypeNewDecimal :: byte where "fieldTypeNewDecimal = 246"
definition fieldTypeEnum :: byte where "fieldTypeEnum = 247"
definition fieldTypeSet :: byte where "fieldTypeSet = 248"
definition fieldTypeTinyBLOB :: byte where "fieldTypeTinyBLOB = 249"
definition fieldTypeMediumBLOB :: byte where "fieldTypeMediumBLOB = 250"
definition fieldTypeLongBLOB :: byte where "fieldTypeLongBLOB = 251"
definition fieldTypeBLOB :: byte where "fieldTypeBLOB = 252"
definition fieldTypeVarString :: byte where "fieldTypeVarString = 253"
definition fieldTypeString :: byte where "fieldTypeString = 254"
definition fieldTypeGeometry :: byte where "fieldTypeGeometry = 255"

text \<open>
  \<open>binary.LittleEndian.Uint16\<close>, \<open>Uint32\<close> and \<open>Uint64\<close> of the Go library: the bytes of a
  slice, least significant first, as one word.
\<close>

fun leUint :: "byte list \<Rightarrow> 'a::len word" where
  "leUint [] = 0"
| "leUint (b # bs) = ucast b OR push_bit 8 (leUint bs)"

text \<open>
  Modelled from the spec: utils.go, with \<open>readLengthEncodedInteger\<close> and
  \<open>readLengthEncodedString\<close>, is not among the sources. Section 4.3: "first byte \<open>b\<close>:
  \<open>< 0xfb\<close> gives value \<open>b\<close>; \<open>0xfc\<close> the next 2 LE bytes; \<open>0xfd\<close> the next 3 LE bytes;
  \<open>0xfe\<close> the next 8 LE bytes; \<open>0xfb\<close> signals NULL; \<open>0xff\<close> is reserved", and "LE-integer
  length followed by that many raw bytes; NULL-length case returns (empty,
  is-null=true)". The results are the value, the NULL flag and the number of bytes read.
\<close>

definition readLengthEncodedInteger :: "byte list \<Rightarrow> error + (64 word \<times> bool \<times> int)" where
  "readLengthEncodedInteger b =
     (case b of
        [] \<Rightarrow> Inl NotInSpec
      | b0 # r \<Rightarrow>
          if b0 < 0xfb then Inr (ucast b0, False, 1)
          else if b0 = 0xfb then Inr (0, True, 1)
          else if b0 = 0xfc \<and> 2 \<le> length r then Inr (leUint (take 2 r), False, 3)
          else if b0 = 0xfd \<and> 3 \<le> length r then Inr (leUint (take 3 r), False, 4)
          else if b0 = 0xfe \<and> 8 \<le> length r then Inr (leUint (take 8 r), False, 9)
          else Inl NotInSpec)"

definition readLengthEncodedString :: "byte list \<Rightarrow> error + (byte list \<times> bool \<times> int)" where
  "readLengthEncodedString b =
     (case readLengthEncodedInteger b of
        Inl e \<Rightarrow> Inl e
      | Inr (num, isNull, n) \<Rightarrow>
          if isNull then Inr ([], True, n)
          else if nat n + unat num \<le> length b
          then Inr (take (unat num) (drop (nat n) b), False, n + int (unat num))
          else Inl NotInSpec)"

subsection \<open>Result packets\<close>

text \<open>\<open>readStatus\<close> indexes the first two bytes of its argument.\<close>

definition readStatus :: "byte list \<Rightarrow> error + 16 word" where
  "readStatus b =
     (if length b < 2 then Inl RuntimePanic
      else Inr ((ucast (b ! 0) :: 16 word) OR push_bit 8 (ucast (b ! 1))))"

text \<open>
  \<open>handleErrorPacket\<close>: the indexing of \<open>data\<close> panics on a packet that is too short for
  the part that is read.
\<close>

definition handleErrorPacket :: "mysqlConn \<Rightarrow> byte list \<Rightarrow> mysqlConn \<times> error" where
  "handleErrorPacket mc data =
     (if length data < 1 then (mc, RuntimePanic)
      else if data ! 0 \<noteq> iERR then (mc, ErrMalformPkt)
      else if length data < 3 then (mc, RuntimePanic)
      else
        let errno = (leUint (take 2 (drop 1 data)) :: 16 word)
        in if (errno = 1792 \<or> errno = 1290) \<and> rejectReadOnly mc then (Close mc, ErrBadConn)
           else if length data < 4 then (mc, RuntimePanic)
           else if data ! 3 = 0x23 then
             (if length data < 9 then (mc, RuntimePanic)
              else (mc, MySQLError (unat errno) (take 5 (drop 4 data)) (drop 9 data)))
           else (mc, MySQLError (unat errno) (replicate 5 0) (drop 3 data)))"

text \<open>
  \<open>handleOkPacket\<close>: the two length-encoded integers, the last entries of the result
  lists, and the status word. \<open>int64(...)\<close> of an unsigned 64-bit value is its reading as
  two's complement.
\<close>

definition setLast :: "int list \<Rightarrow> int \<Rightarrow> int list" where
  "setLast xs v = (if xs = [] then xs else xs[length xs - 1 := v])"

definition handleOkPacket :: "mysqlConn \<Rightarrow> byte list \<Rightarrow> mysqlConn \<times> error option" where
  "handleOkPacket mc data =
     (if length data < 1 then (mc, Some RuntimePanic)
      else case readLengthEncodedInteger (drop 1 data) of
        Inl e \<Rightarrow> (mc, Some e)
      | Inr (affected, _, n) \<Rightarrow>
          if int (length data) < 1 + n then (mc, Some RuntimePanic)
          else case readLengthEncodedInteger (drop (nat (1 + n)) data) of
            Inl e \<Rightarrow> (mc, Some e)
          | Inr (insertId, _, m) \<Rightarrow>
              let mc1 = mc\<lparr>affectedRows := setLast (affectedRows mc) (sint affected),
                             insertIds := setLast (insertIds mc) (sint insertId)\<rparr>
              in if int (length data) < 1 + n + m + 2 then (mc1, Some RuntimePanic)
                 else case readStatus (take 2 (drop (nat (1 + n + m)) data)) of
                   Inl e \<Rightarrow> (mc1, Some e)
                 | Inr st \<Rightarrow> (mc1\<lparr>status := st\<rparr>, None))"

text \<open>
  infile.go is not among the sources, and the specification puts LOCAL INFILE handling
  outside the core: the handler is a parameter \<open>h\<close>, from the file name and the connection
  to the connection it leaves and its error. A handler reads the socket as everything
  else does, so what it leaves of \<open>rx\<close> is a suffix of what it found; the model takes the
  suffix of that length.
\<close>

type_synonym infileHandler = "byte list \<Rightarrow> mysqlConn \<Rightarrow> mysqlConn \<times> error option"

definition handleInFileRequest ::
  "infileHandler \<Rightarrow> byte list \<Rightarrow> mysqlConn \<Rightarrow> mysqlConn \<times> error option" where
  "handleInFileRequest h name mc =
     (case h name mc of
        (mc1, e) \<Rightarrow> (mc1\<lparr>rx := drop (length (rx mc) - length (rx mc1)) (rx mc)\<rparr>, e))"

text \<open>
  \<open>readResultSetHeaderPacket\<close> returns the column count, or the error. \<open>int(num)\<close> of the
  unsigned 64-bit count is its reading as two's complement.
\<close>

definition readResultSetHeaderPacket ::
  "infileHandler \<Rightarrow> mysqlConn \<Rightarrow> mysqlConn \<times> (error + int)" where
  "readResultSetHeaderPacket h mc =
     (let mc0 = mc\<lparr>affectedRows := affectedRows mc @ [0], insertIds := insertIds mc @ [0]\<rparr>
      in case readPacket mc0 of
           (mc1, Inl err) \<Rightarrow> (mc1, Inl err)
         | (mc1, Inr data) \<Rightarrow>
             if length data < 1 then (mc1, Inl RuntimePanic)
             else if data ! 0 = iOK then
               (case handleOkPacket mc1 data of
                  (mc2, Some e) \<Rightarrow> (mc2, Inl e)
                | (mc2, None) \<Rightarrow> (mc2, Inr 0))
             else if data ! 0 = iERR then
               (case handleErrorPacket mc1 data of (mc2, e) \<Rightarrow> (mc2, Inl e))
             else if data ! 0 = iLocalInFile then
               (case handleInFileRequest h (drop 1 data) mc1 of
                  (mc2, Some e) \<Rightarrow> (mc2, Inl e)
                | (mc2, None) \<Rightarrow> (mc2, Inr 0))
             else
               (case readLengthEncodedInteger data of
                  Inl e \<Rightarrow> (mc1, Inl e)
                | Inr (num, _, _) \<Rightarrow> (mc1, Inr (sint num))))"

subsection \<open>Every packet read shortens the stream\<close>

lemma readNext_Inl: "readNext mc n = (mc1, Inl e) \<Longrightarrow> mc1 = mc"
  by (auto simp: readNext_def split: if_splits)

lemma readNext_Inr:
  "readNext mc n = (mc1, Inr d) \<Longrightarrow>
     mc1 = mc\<lparr>rx := drop (nat n) (rx mc)\<rparr> \<and> d = take (nat n) (rx mc) \<and> n \<le> int (length (rx mc))"
  by (auto simp: readNext_def split: if_splits)

lemma readFailed_rx: "rx (fst (readFailed mc)) = rx mc"
  by (simp add: readFailed_def Close_def cleanup_def split: option.splits)

lemma readFailed_Inl: "\<exists>e. snd (readFailed mc) = Inl e"
  by (simp add: readFailed_def split: option.splits)

lemma readPacketLoop_rx:
  "length (rx (fst (readPacketLoop mc prevData))) \<le> length (rx mc)
   \<and> (\<forall>d. snd (readPacketLoop mc prevData) = Inr d \<longrightarrow>
         length (rx (fst (readPacketLoop mc prevData))) < length (rx mc))"
proof (induction mc prevData rule: readPacketLoop.induct)
  case (1 mc prevData)
  obtain mc1 r1 where r1: "readNext mc 4 = (mc1, r1)"
    by fastforce
  show ?case
  proof (cases r1)
    case (Inl e)
    then show ?thesis
      using r1 readNext_Inl [of mc 4 mc1 e] readFailed_rx [of mc] readFailed_Inl [of mc]
      by (subst (1 2 3) readPacketLoop.simps) auto
  next
    case (Inr hdr)
    define pktLen where "pktLen = headerLen (hdr ! 0) (hdr ! 1) (hdr ! 2)"
    define mc2 where "mc2 = mc1\<lparr>sequence := sequence mc1 + 1\<rparr>"
    have l1: "length (rx mc1) < length (rx mc)"
      using r1 Inr readNext_Inr [of mc 4 mc1 hdr] by auto
    obtain mc3 r3 where r3: "readNext mc2 pktLen = (mc3, r3)"
      by fastforce
    have l3: "length (rx mc3) \<le> length (rx mc1)"
      using r3 by (auto simp: readNext_def mc2_def split: if_splits)
    have unfold: "readPacketLoop mc prevData =
      (if hdr ! 3 \<noteq> sequence mc1 then
               (Close mc1, Inl (if hdr ! 3 > sequence mc1 then ErrPktSyncMul else ErrPktSync))
       else if pktLen = 0 then
                    (case prevData of
                       None \<Rightarrow> (Close mc2, Inl ErrInvalidConn)
                     | Some p \<Rightarrow> (mc2, Inr p))
       else (case r3 of Inl err \<Rightarrow> readFailed mc3
             | Inr data \<Rightarrow> if pktLen < maxPacketSize then (mc3, Inr (appendPrev prevData data))
                         else readPacketLoop mc3 (Some (appendPrev prevData data))))"
      using r1 Inr r3 unfolding pktLen_def mc2_def
      by (subst readPacketLoop.simps) (simp add: Let_def cong: sum.case_cong option.case_cong)
    show ?thesis
    proof (cases "hdr ! 3 = sequence mc1 \<and> pktLen \<noteq> 0 \<and> \<not> pktLen < maxPacketSize \<and> (\<exists>d. r3 = Inr d)")
      case True
      then obtain data where d: "r3 = Inr data" by blast
      have IH: "length (rx (fst (readPacketLoop mc3 (Some (appendPrev prevData data))))) \<le> length (rx mc3)"
        using "1.IH" [OF r1 [symmetric] Inr pktLen_def _ mc2_def _ r3 [symmetric] d] True
        by simp
      show ?thesis
        using True d IH l1 l3 unfolding unfold by simp
    next
      case False
      have "rx mc2 = rx mc1" by (simp add: mc2_def)
      then show ?thesis
        using False l1 l3 readFailed_rx [of mc3] readFailed_Inl [of mc3]
        unfolding unfold
        by (auto simp: Close_def cleanup_def split: option.splits sum.splits)
    qed
  qed
qed

lemma readPacket_rx_less:
  "readPacket mc = (mc', Inr d) \<Longrightarrow> length (rx mc') < length (rx mc)"
  using readPacketLoop_rx [of mc None] by (simp add: readPacket_def)

lemma readPacket_rx_le:
  "readPacket mc = (mc', r) \<Longrightarrow> length (rx mc') \<le> length (rx mc)"
  using readPacketLoop_rx [of mc None] by (simp add: readPacket_def)

subsection \<open>Draining result sets\<close>

text \<open>The loop of \<open>readUntilEOF\<close>.\<close>

function readUntilEOF :: "mysqlConn \<Rightarrow> mysqlConn \<times> error option" where
  "readUntilEOF mc =
     (case readPacket mc of
        (mc1, Inl err) \<Rightarrow> (mc1, Some err)
      | (mc1, Inr data) \<Rightarrow>
          if length data < 1 then (mc1, Some RuntimePanic)
          else if data ! 0 = iERR then
            (case handleErrorPacket mc1 data of (mc2, e) \<Rightarrow> (mc2, Some e))
          else if data ! 0 = iEOF then
            (if length data = 5 then
               (case readStatus (drop 3 data) of
                  Inl e \<Rightarrow> (mc1, Some e)
                | Inr st \<Rightarrow> (mc1\<lparr>status := st\<rparr>, None))
             else (mc1, None))
          else readUntilEOF mc1)"
  by pat_completeness auto
termination
  by (relation "measure (\<lambda>mc. length (rx mc))") (auto dest: readPacket_rx_less [OF sym])

declare readUntilEOF.simps [simp del]

lemma handleErrorPacket_rx: "rx (fst (handleErrorPacket mc data)) = rx mc"
  by (simp add: handleErrorPacket_def Let_def Close_def cleanup_def)

lemma handleOkPacket_rx: "rx (fst (handleOkPacket mc data)) = rx mc"
  by (simp add: handleOkPacket_def Let_def split: sum.splits prod.splits)

lemma handleInFileRequest_rx:
  "length (rx (fst (handleInFileRequest h name mc))) \<le> length (rx mc)"
  by (simp add: handleInFileRequest_def split: prod.splits)

lemma readResultSetHeaderPacket_rx:
  assumes "readResultSetHeaderPacket h mc = (mc', Inr n)"
  shows "length (rx mc') < length (rx mc)"
proof -
  let ?mc0 = "mc\<lparr>affectedRows := affectedRows mc @ [0], insertIds := insertIds mc @ [0]\<rparr>"
  obtain mc1 r where r: "readPacket ?mc0 = (mc1, r)"
    by fastforce
  show ?thesis
  proof (cases r)
    case (Inl e)
    then show ?thesis
      using assms r by (simp add: readResultSetHeaderPacket_def Let_def)
  next
    case (Inr data)
    have l1: "length (rx mc1) < length (rx mc)"
      using readPacket_rx_less [of ?mc0 mc1 data] r Inr by simp
    have "length (rx mc') \<le> length (rx mc1)"
      using assms r Inr handleOkPacket_rx [of mc1 data] handleErrorPacket_rx [of mc1 data]
        handleInFileRequest_rx [of h "drop 1 data" mc1]
      by (auto simp: readResultSetHeaderPacket_def Let_def
          split: if_splits prod.splits option.splits sum.splits)
    then show ?thesis
      using l1 by simp
  qed
qed

lemma readUntilEOF_rx: "length (rx (fst (readUntilEOF mc))) \<le> length (rx mc)"
proof (induction mc rule: readUntilEOF.induct)
  case (1 mc)
  obtain mc1 r where r: "readPacket mc = (mc1, r)"
    by fastforce
  have l1: "length (rx mc1) \<le> length (rx mc)"
    using readPacket_rx_le [OF r] .
  show ?case
  proof (cases r)
    case (Inl e)
    then show ?thesis
      using r l1 by (subst readUntilEOF.simps) simp
  next
    case (Inr data)
    show ?thesis
    proof (cases "data \<noteq> [] \<and> data ! 0 \<noteq> iERR \<and> data ! 0 \<noteq> iEOF")
      case True
      then have "readUntilEOF mc = readUntilEOF mc1"
        using r Inr by (subst readUntilEOF.simps) auto
      moreover have "length (rx (fst (readUntilEOF mc1))) \<le> length (rx mc1)"
        using "1.IH" [OF r [symmetric] Inr] True by simp
      ultimately show ?thesis
        using l1 by simp
    next
      case False
      then show ?thesis
        using r Inr l1 handleErrorPacket_rx [of mc1 data]
        by (subst readUntilEOF.simps)
           (auto split: prod.splits sum.splits)
    qed
  qed
qed

text \<open>The loop of \<open>discardResults\<close>.\<close>

function discardResults :: "infileHandler \<Rightarrow> mysqlConn \<Rightarrow> mysqlConn \<times> error option" where
  "discardResults h mc =
     (if status mc AND statusMoreResultsExists \<noteq> 0 then
        (case readResultSetHeaderPacket h mc of
           (mc1, Inl err) \<Rightarrow> (mc1, Some err)
         | (mc1, Inr resLen) \<Rightarrow>
             if resLen > 0 then
               (case readUntilEOF mc1 of
                  (mc2, Some err) \<Rightarrow> (mc2, Some err)
                | (mc2, None) \<Rightarrow>
                    (case readUntilEOF mc2 of
                       (mc3, Some err) \<Rightarrow> (mc3, Some err)
                     | (mc3, None) \<Rightarrow> discardResults h mc3))
             else discardResults h mc1)
      else (mc, None))"
  by pat_completeness auto
termination
proof (relation "measure (\<lambda>(h, mc). length (rx mc))")
  show "wf (measure (\<lambda>(h :: infileHandler, mc). length (rx mc)))"
    by simp
next
  fix h :: infileHandler and mc x y b xa ya xb yb
  assume hd: "(x, y) = readResultSetHeaderPacket h mc" "y = Inr b"
    and d1: "(xa, ya) = readUntilEOF x" and d2: "(xb, yb) = readUntilEOF xa"
  have "length (rx x) < length (rx mc)"
    using readResultSetHeaderPacket_rx [of h mc x b] hd by simp
  moreover have "length (rx xa) \<le> length (rx x)"
    using readUntilEOF_rx [of x] d1 [symmetric] by simp
  moreover have "length (rx xb) \<le> length (rx xa)"
    using readUntilEOF_rx [of xa] d2 [symmetric] by simp
  ultimately show "((h, xb), h, mc) \<in> measure (\<lambda>(h, mc). length (rx mc))"
    by simp
next
  fix h :: infileHandler and mc x y b
  assume hd: "(x, y) = readResultSetHeaderPacket h mc" "y = Inr b"
  show "((h, x), h, mc) \<in> measure (\<lambda>(h, mc). length (rx mc))"
    using readResultSetHeaderPacket_rx [of h mc x b] hd by simp
qed

declare discardResults.simps [simp del]

subsection \<open>Rows (rows.go)\<close>

record mysqlField =
  tableName :: "byte list"
  name :: "byte list"
  flags :: "16 word"
  fieldType :: byte
  decimals :: byte

text \<open>
  \<open>mysqlRows\<close>: \<open>hasMc\<close> says that the pointer \<open>mc\<close> is not nil; the connection it points
  to is passed to each method and returned. \<open>rsColumns\<close> and \<open>rsDone\<close> are the fields
  \<open>columns\<close> and \<open>done\<close> of the result set.
\<close>

record mysqlRows =
  hasMc :: bool
  rsColumns :: "mysqlField list"
  rsDone :: bool

text \<open>
  Modelled from the spec: \<open>finish\<close> is not among the sources; it gives the "finished"
  signal of section 4.8 to the cancellation watcher and changes no field of the model.
\<close>

definition finish :: "mysqlConn \<Rightarrow> mysqlConn" where
  "finish mc = mc"

text \<open>\<open>mysqlRows.Close\<close>.\<close>

definition rowsClose ::
  "infileHandler \<Rightarrow> mysqlRows \<Rightarrow> mysqlConn \<Rightarrow> mysqlRows \<times> mysqlConn \<times> error option" where
  "rowsClose h rows mc =
     (if \<not> hasMc rows then (rows, mc, None)
      else if isBroken mc then (rows, mc, Some ErrInvalidConn)
      else
        case (if \<not> rsDone rows then readUntilEOF mc else (mc, None)) of
          (mc1, Some err) \<Rightarrow> (rows\<lparr>hasMc := False\<rparr>, finish mc1, Some err)
        | (mc1, None) \<Rightarrow>
            (case discardResults h mc1 of
               (mc2, Some err) \<Rightarrow> (rows, mc2, Some err)
             | (mc2, None) \<Rightarrow> (rows\<lparr>hasMc := False\<rparr>, finish mc2, None)))"

definition HasNextResultSet :: "mysqlRows \<Rightarrow> mysqlConn \<Rightarrow> bool" where
  "HasNextResultSet rows mc =
     (if \<not> hasMc rows then False else status mc AND statusMoreResultsExists \<noteq> 0)"

subsection \<open>Values and the conversions of the Go library\<close>

text \<open>
  \<open>time.Time\<close> and \<open>appendDateTime\<close> belong to the Go library and to utils.go, which is
  not among the sources: a time is represented by what the execute path reads of it,
  whether \<open>IsZero\<close> holds and what \<open>appendDateTime\<close> gives for it.
\<close>

datatype gotime = GoTime bool "error + byte list"

text \<open>
  \<open>driver.Value\<close>. Floating-point numbers are their IEEE 754 bit patterns.
  \<open>VUintText v\<close> is the result of \<open>uint64ToString(v)\<close> (utils.go, not among the sources):
  the decimal text of the unsigned value \<open>v\<close>. \<open>VBytesNil\<close> is \<open>[]byte(nil)\<close>;
  \<open>VRawMessage\<close> and \<open>VRawMessageNil\<close> are \<open>json.RawMessage\<close> values; \<open>VOther\<close> is a
  value of any other dynamic type.
\<close>

datatype driverValue =
    VNil
  | VInt64 "64 word"
  | VUint64 "64 word"
  | VFloat32 "32 word"
  | VFloat64 "64 word"
  | VBool bool
  | VBytes "byte list"
  | VBytesNil
  | VRawMessage "byte list"
  | VRawMessageNil
  | VString "byte list"
  | VTime gotime
  | VUintText "64 word"
  | VOther

text \<open>
  \<open>strconv.ParseUint(s, 10, bitSize)\<close> and \<open>strconv.ParseInt(s, 10, bitSize)\<close> of the Go
  library, for \<open>bitSize\<close> 32 or 64: the digits are read from the left; a byte that is not
  a decimal digit is a syntax error, a value beyond \<open>2^bitSize - 1\<close> a range error with
  the largest value; \<open>ParseInt\<close> takes one leading sign and fails with a range error
  and the nearest bound outside \<open>-2^(bitSize-1) .. 2^(bitSize-1) - 1\<close>. Both return the
  value together with the error.
\<close>

fun parseDigits :: "nat \<Rightarrow> nat \<Rightarrow> byte list \<Rightarrow> nat \<times> error option" where
  "parseDigits maxVal n [] = (n, None)"
| "parseDigits maxVal n (c # cs) =
     (if \<not> (0x30 \<le> c \<and> c \<le> 0x39) then (0, Some ErrSyntax)
      else if n \<ge> (2 ^ 64 - 1) div 10 + 1 then (maxVal, Some ErrRange)
      else if n * 10 + unat (c - 0x30) > maxVal then (maxVal, Some ErrRange)
      else parseDigits maxVal (n * 10 + unat (c - 0x30)) cs)"

definition ParseUint :: "byte list \<Rightarrow> nat \<Rightarrow> 64 word \<times> error option" where
  "ParseUint s bitSize =
     (if s = [] then (0, Some ErrSyntax)
      else case parseDigits (2 ^ bitSize - 1) 0 s of (n, e) \<Rightarrow> (of_nat n, e))"

definition ParseInt :: "byte list \<Rightarrow> nat \<Rightarrow> 64 word \<times> error option" where
  "ParseInt s bitSize =
     (if s = [] then (0, Some ErrSyntax)
      else
        let neg = (hd s = 0x2d);
            ds = (if hd s = 0x2b \<or> hd s = 0x2d then tl s else s)
        in if ds = [] then (0, Some ErrSyntax)
           else case parseDigits (2 ^ bitSize - 1) 0 ds of
             (un, Some ErrSyntax) \<Rightarrow> (0, Some ErrSyntax)
           | (un, _) \<Rightarrow>
               if \<not> neg \<and> un \<ge> 2 ^ (bitSize - 1)
               then (of_nat (2 ^ (bitSize - 1) - 1), Some ErrRange)
               else if neg \<and> un > 2 ^ (bitSize - 1)
               then (- of_nat (2 ^ (bitSize - 1)), Some ErrRange)
               else (if neg then - of_nat un else of_nat un, None))"

text \<open>
  The conversions between wire bytes and floating-point numbers, dates and times
  (\<open>strconv.ParseFloat\<close> and, from utils.go, \<open>parseDateTime\<close>, \<open>formatBinaryTime\<close>,
  \<open>parseBinaryDateTime\<close> and \<open>formatBinaryDateTime\<close>) are not among the sources: the row
  readers take them as parameters. Each returns its value together with its error, as
  the Go functions do; \<open>ParseFloat b 32\<close> stands for the parsed number after its
  conversion to \<open>float32\<close>.
\<close>

record convs =
  parseDateTime :: "byte list \<Rightarrow> driverValue \<times> error option"
  ParseFloat :: "byte list \<Rightarrow> nat \<Rightarrow> driverValue \<times> error option"
  formatBinaryTime :: "byte list \<Rightarrow> nat \<Rightarrow> driverValue \<times> error option"
  parseBinaryDateTime :: "64 word \<Rightarrow> byte list \<Rightarrow> driverValue \<times> error option"
  formatBinaryDateTime :: "byte list \<Rightarrow> nat \<Rightarrow> driverValue \<times> error option"

subsection \<open>Text rows\<close>

text \<open>
  The conversion of one field of a text row, the \<open>switch\<close> of \<open>textRows.readRow\<close>: the
  value stored in \<open>dest[i]\<close> and the error.
\<close>

definition textValue ::
  "convs \<Rightarrow> bool \<Rightarrow> mysqlField \<Rightarrow> byte list \<Rightarrow> driverValue \<times> error option" where
  "textValue cv pt col b =
     (let ft = fieldType col
      in if ft = fieldTypeTimestamp \<or> ft = fieldTypeDateTime \<or> ft = fieldTypeDate
            \<or> ft = fieldTypeNewDate then
           (if pt then parseDateTime cv b else (VBytes b, None))
         else if ft = fieldTypeTiny \<or> ft = fieldTypeShort \<or> ft = fieldTypeInt24
            \<or> ft = fieldTypeYear \<or> ft = fieldTypeLong then
           (case ParseInt b 32 of (v, e) \<Rightarrow> (VInt64 v, e))
         else if ft = fieldTypeLongLong then
           (if flags col AND flagUnsigned \<noteq> 0
            then (case ParseUint b 64 of (v, e) \<Rightarrow> (VUint64 v, e))
            else (case ParseInt b 64 of (v, e) \<Rightarrow> (VInt64 v, e)))
         else if ft = fieldTypeFloat then ParseFloat cv b 32
         else if ft = fieldTypeDouble then ParseFloat cv b 64
         else (VBytes b, None))"

text \<open>
  The loop \<open>for i := range dest\<close> of \<open>textRows.readRow\<close>, over the indices still to do.
  \<open>data[pos:]\<close> panics when \<open>pos\<close> is beyond the packet, \<open>rows.rs.columns[i]\<close> when there
  are fewer columns than destinations.
\<close>

fun textRowLoop ::
  "convs \<Rightarrow> bool \<Rightarrow> mysqlField list \<Rightarrow> byte list \<Rightarrow> nat list \<Rightarrow> nat \<Rightarrow> driverValue list
     \<Rightarrow> driverValue list \<times> error option" where
  "textRowLoop cv pt cols data [] pos dest = (dest, None)"
| "textRowLoop cv pt cols data (i # is) pos dest =
     (if length data < pos then (dest, Some RuntimePanic)
      else case readLengthEncodedString (drop pos data) of
        Inl e \<Rightarrow> (dest, Some e)
      | Inr (b, isNull, n) \<Rightarrow>
          if isNull then textRowLoop cv pt cols data is (pos + nat n) (dest[i := VNil])
          else if length cols \<le> i then (dest, Some RuntimePanic)
          else case textValue cv pt (cols ! i) b of
            (v, Some e) \<Rightarrow> (dest[i := v], Some e)
          | (v, None) \<Rightarrow> textRowLoop cv pt cols data is (pos + nat n) (dest[i := v]))"

text \<open>
  \<open>textRows.readRow\<close>, on rows that hold the connection \<open>mc\<close>: the rows, the connection,
  the destination slice and the error it leaves.
\<close>

definition textRows_readRow ::
  "convs \<Rightarrow> mysqlRows \<Rightarrow> mysqlConn \<Rightarrow> driverValue list
     \<Rightarrow> mysqlRows \<times> mysqlConn \<times> driverValue list \<times> error option" where
  "textRows_readRow cv rows mc dest =
     (if rsDone rows then (rows, mc, dest, Some EOF)
      else case readPacket mc of
        (mc1, Inl err) \<Rightarrow> (rows, mc1, dest, Some err)
      | (mc1, Inr data) \<Rightarrow>
          if data = [] then (rows, mc1, dest, Some RuntimePanic)
          else if data ! 0 = iEOF \<and> length data = 5 then
            (case readStatus (drop 3 data) of
               Inl e \<Rightarrow> (rows, mc1, dest, Some e)
             | Inr st \<Rightarrow>
                 (rows\<lparr>hasMc := HasNextResultSet rows (mc1\<lparr>status := st\<rparr>), rsDone := True\<rparr>,
                  mc1\<lparr>status := st\<rparr>, dest, Some EOF))
          else if data ! 0 = iERR then
            (case handleErrorPacket mc1 data of
               (mc2, e) \<Rightarrow> (rows\<lparr>hasMc := False\<rparr>, mc2, dest, Some e))
          else
            (case textRowLoop cv (parseTime mc1) (rsColumns rows) data [0..<length dest] 0 dest of
               (dest1, e) \<Rightarrow> (rows, mc1, dest1, e)))"

subsection \<open>Binary rows\<close>

text \<open>
  The length of the text that the binary date and time formatters are asked for, from the
  \<open>decimals\<close> of the column; an illegal value of \<open>decimals\<close> is a protocol error.
\<close>

definition dstlenFor :: "nat \<Rightarrow> byte \<Rightarrow> error + nat" where
  "dstlenFor base d =
     (if d = 0x00 \<or> d = 0x1f then Inr base
      else if d = 1 \<or> d = 2 \<or> d = 3 \<or> d = 4 \<or> d = 5 \<or> d = 6 then Inr (base + 1 + unat d)
      else Inl (Errorf ''protocol error, illegal decimals value''))"

text \<open>
  The decoding of one column that the NULL bitmap does not mark, the \<open>switch\<close> of
  \<open>binaryRows.readRow\<close>: the value for \<open>dest[i]\<close> and the position after it, or the
  error. An index or a slice bound beyond the packet panics (the packet is taken to fill
  its capacity).
\<close>

definition binaryValue ::
  "convs \<Rightarrow> bool \<Rightarrow> mysqlField \<Rightarrow> byte list \<Rightarrow> nat \<Rightarrow> error + (driverValue \<times> nat)" where
  "binaryValue cv pt col data pos =
     (let ft = fieldType col; unsigned = (flags col AND flagUnsigned \<noteq> 0)
      in if ft = fieldTypeNULL then Inr (VNil, pos)
         else if ft = fieldTypeTiny then
           (if length data \<le> pos then Inl RuntimePanic
            else Inr (if unsigned then VInt64 (ucast (data ! pos))
                      else VInt64 (scast (data ! pos)), pos + 1))
         else if ft = fieldTypeShort \<or> ft = fieldTypeYear then
           (if length data < pos + 2 then Inl RuntimePanic
            else Inr (if unsigned
                      then VInt64 (ucast (leUint (take 2 (drop pos data)) :: 16 word))
                      else VInt64 (scast (leUint (take 2 (drop pos data)) :: 16 word)),
                      pos + 2))
         else if ft = fieldTypeInt24 \<or> ft = fieldTypeLong then
           (if length data < pos + 4 then Inl RuntimePanic
            else Inr (if unsigned
                      then VInt64 (ucast (leUint (take 4 (drop pos data)) :: 32 word))
                      else VInt64 (scast (leUint (take 4 (drop pos data)) :: 32 word)),
                      pos + 4))
         else if ft = fieldTypeLongLong then
           (if length data < pos + 8 then Inl RuntimePanic
            else
              let val = (leUint (take 8 (drop pos data)) :: 64 word)
              in Inr (if unsigned then (if val > 0x7fffffffffffffff then VUintText val
                                        else VInt64 val)
                      else VInt64 val, pos + 8))
         else if ft = fieldTypeFloat then
           (if length data < pos + 4 then Inl RuntimePanic
            else Inr (VFloat32 (leUint (take 4 (drop pos data))), pos + 4))
         else if ft = fieldTypeDouble then
           (if length data < pos + 8 then Inl RuntimePanic
            else Inr (VFloat64 (leUint (take 8 (drop pos data))), pos + 8))
         else if ft = fieldTypeDecimal \<or> ft = fieldTypeNewDecimal \<or> ft = fieldTypeVarChar
            \<or> ft = fieldTypeBit \<or> ft = fieldTypeEnum \<or> ft = fieldTypeSet
            \<or> ft = fieldTypeTinyBLOB \<or> ft = fieldTypeMediumBLOB \<or> ft = fieldTypeLongBLOB
            \<or> ft = fieldTypeBLOB \<or> ft = fieldTypeVarString \<or> ft = fieldTypeString
            \<or> ft = fieldTypeGeometry \<or> ft = fieldTypeJSON then
           (if length data < pos then Inl RuntimePanic
            else case readLengthEncodedString (drop pos data) of
              Inl e \<Rightarrow> Inl e
            | Inr (b, isNull, n) \<Rightarrow>
                Inr (if isNull then VNil else VBytes b, pos + nat n))
         else if ft = fieldTypeDate \<or> ft = fieldTypeNewDate \<or> ft = fieldTypeTime
            \<or> ft = fieldTypeTimestamp \<or> ft = fieldTypeDateTime then
           (if length data < pos then Inl RuntimePanic
            else case readLengthEncodedInteger (drop pos data) of
              Inl e \<Rightarrow> Inl e
            | Inr (num, isNull, n) \<Rightarrow>
                let pos1 = pos + nat n
                in if isNull then Inr (VNil, pos1)
                   else if ft = fieldTypeTime then
                     (case dstlenFor 8 (decimals col) of
                        Inl e \<Rightarrow> Inl e
                      | Inr dstlen \<Rightarrow>
                          if sint num < 0 \<or> int (length data) < int pos1 + sint num
                          then Inl RuntimePanic
                          else case formatBinaryTime cv
                                      (take (nat (sint num)) (drop pos1 data)) dstlen of
                            (v, Some e) \<Rightarrow> Inl e
                          | (v, None) \<Rightarrow> Inr (v, pos1 + nat (sint num)))
                   else if pt then
                     (if length data < pos1 then Inl RuntimePanic
                      else case parseBinaryDateTime cv num (drop pos1 data) of
                        (v, Some e) \<Rightarrow> Inl e
                      | (v, None) \<Rightarrow> Inr (v, nat (int pos1 + sint num)))
                   else
                     (case (if ft = fieldTypeDate then Inr 10
                            else dstlenFor 19 (decimals col)) of
                        Inl e \<Rightarrow> Inl e
                      | Inr dstlen \<Rightarrow>
                          if sint num < 0 \<or> int (length data) < int pos1 + sint num
                          then Inl RuntimePanic
                          else case formatBinaryDateTime cv
                                      (take (nat (sint num)) (drop pos1 data)) dstlen of
                            (v, Some e) \<Rightarrow> Inl e
                          | (v, None) \<Rightarrow> Inr (v, pos1 + nat (sint num))))
         else Inl (Errorf ''unknown field type''))"

text \<open>
  The test of the NULL bitmap for column \<open>i\<close>:
  \<open>((nullMask[(i+2)>>3] >> uint((i+2)&7)) & 1) == 1\<close>.
\<close>

definition nullBit :: "byte list \<Rightarrow> nat \<Rightarrow> bool" where
  "nullBit nullMask i =
     ((drop_bit ((i + 2) mod 8) (nullMask ! ((i + 2) div 8))) AND 1 = 1)"

text \<open>
  The loop \<open>for i := range dest\<close> of \<open>binaryRows.readRow\<close>, over the indices still to do;
  besides the destination slice and the error it returns the position \<open>pos\<close> it has
  reached in the packet.
\<close>

fun binaryRowLoop ::
  "convs \<Rightarrow> bool \<Rightarrow> mysqlField list \<Rightarrow> byte list \<Rightarrow> byte list \<Rightarrow> nat list \<Rightarrow> nat
     \<Rightarrow> driverValue list \<Rightarrow> nat \<times> driverValue list \<times> error option" where
  "binaryRowLoop cv pt cols data nullMask [] pos dest = (pos, dest, None)"
| "binaryRowLoop cv pt cols data nullMask (i # is) pos dest =
     (if nullBit nullMask i
      then binaryRowLoop cv pt cols data nullMask is pos (dest[i := VNil])
      else if length cols \<le> i then (pos, dest, Some RuntimePanic)
      else case binaryValue cv pt (cols ! i) data pos of
        Inl e \<Rightarrow> (pos, dest, Some e)
      | Inr (v, pos1) \<Rightarrow> binaryRowLoop cv pt cols data nullMask is pos1 (dest[i := v]))"

text \<open>
  \<open>binaryRows.readRow\<close>, on rows that hold the connection \<open>mc\<close>: the rows, the connection,
  the position reached in the packet, the destination slice and the error it leaves.
\<close>

definition binaryRows_readRow ::
  "convs \<Rightarrow> mysqlRows \<Rightarrow> mysqlConn \<Rightarrow> driverValue list
     \<Rightarrow> mysqlRows \<times> mysqlConn \<times> nat \<times> driverValue list \<times> error option" where
  "binaryRows_readRow cv rows mc dest =
     (case readPacket mc of
        (mc1, Inl err) \<Rightarrow> (rows, mc1, 0, dest, Some err)
      | (mc1, Inr data) \<Rightarrow>
          if data = [] then (rows, mc1, 0, dest, Some RuntimePanic)
          else if data ! 0 \<noteq> iOK then
            (if data ! 0 = iEOF \<and> length data = 5 then
               (case readStatus (drop 3 data) of
                  Inl e \<Rightarrow> (rows, mc1, 0, dest, Some e)
                | Inr st \<Rightarrow>
                    (rows\<lparr>hasMc := HasNextResultSet rows (mc1\<lparr>status := st\<rparr>), rsDone := True\<rparr>,
                     mc1\<lparr>status := st\<rparr>, 0, dest, Some EOF))
             else
               (case handleErrorPacket mc1 data of
                  (mc2, e) \<Rightarrow> (rows\<lparr>hasMc := False\<rparr>, mc2, 0, dest, Some e)))
          else
            let pos = 1 + (length dest + 7 + 2) div 8
            in if length data < pos then (rows, mc1, pos, dest, Some RuntimePanic)
               else
                 (case binaryRowLoop cv (parseTime mc1) (rsColumns rows) data
                         (take (pos - 1) (drop 1 data)) [0..<length dest] pos dest of
                    (pos1, dest1, e) \<Rightarrow> (rows, mc1, pos1, dest1, e)))"

subsection \<open>The widths of binary values, after the specification\<close>

text \<open>
  The number of bytes that section 4.7 of the specification gives to a value of a binary
  row that starts the bytes \<open>b\<close>: "1/2/4/8 for integers, 4/8 for float/double;
  length-encoded strings for decimal/char/blob/bit/enum/set/json/geometry;
  length-prefixed binary layouts for date/time/datetime/timestamp", that is the length
  prefix together with the bytes it announces (the prefix alone for the NULL marker); a
  column of type NULL has no bytes.
\<close>

definition valueWidth :: "mysqlField \<Rightarrow> byte list \<Rightarrow> nat" where
  "valueWidth col b =
     (let ft = fieldType col
      in if ft = fieldTypeNULL then 0
         else if ft = fieldTypeTiny then 1
         else if ft = fieldTypeShort \<or> ft = fieldTypeYear then 2
         else if ft = fieldTypeInt24 \<or> ft = fieldTypeLong \<or> ft = fieldTypeFloat then 4
         else if ft = fieldTypeLongLong \<or> ft = fieldTypeDouble then 8
         else case readLengthEncodedInteger b of
           Inl e \<Rightarrow> 0
         | Inr (num, isNull, n) \<Rightarrow> if isNull then nat n else nat n + unat num)"

text \<open>
  The widths \<open>size\<^sub>i\<close> of the columns \<open>js\<close> of a row packet \<open>data\<close>, the first of them
  starting at \<open>pos\<close>: 0 for a column that the NULL bitmap marks, the width of its value
  otherwise.
\<close>

fun specWidths :: "mysqlField list \<Rightarrow> byte list \<Rightarrow> byte list \<Rightarrow> nat list \<Rightarrow> nat \<Rightarrow> nat list" where
  "specWidths cols data nullMask [] pos = []"
| "specWidths cols data nullMask (i # is) pos =
     (let w = (if nullBit nullMask i then 0 else valueWidth (cols ! i) (drop pos data))
      in w # specWidths cols data nullMask is (pos + w))"

text \<open>
  Section 4.3 of the specification on the binary date and time layouts: 0, 4, 7 or 11
  bytes, "formatter must reject any other length". \<open>lengthsChecked\<close> says so of the
  parameter \<open>parseBinaryDateTime\<close>.
\<close>

definition lengthsChecked :: "convs \<Rightarrow> bool" where
  "lengthsChecked cv =
     (\<forall>num b v. parseBinaryDateTime cv num b = (v, None) \<longrightarrow> num = 0 \<or> num = 4 \<or> num = 7 \<or> num = 11)"

subsection \<open>Columns, rows and conversions for concrete runs\<close>

definition cv0 :: convs where
  "cv0 = \<lparr>parseDateTime = (\<lambda>b. (VNil, Some NotInSpec)),
          ParseFloat = (\<lambda>b n. (VNil, Some NotInSpec)),
          formatBinaryTime = (\<lambda>b n. (VNil, Some NotInSpec)),
          parseBinaryDateTime = (\<lambda>num b. (VNil, Some NotInSpec)),
          formatBinaryDateTime = (\<lambda>b n. (VNil, Some NotInSpec))\<rparr>"

definition uintCol :: mysqlField where
  "uintCol = \<lparr>tableName = [], name = [], flags = flagUnsigned, fieldType = fieldTypeLong, decimals = 0\<rparr>"

definition cv1 :: convs where
  "cv1 = \<lparr>parseDateTime = (\<lambda>b. (VNil, Some NotInSpec)),
          ParseFloat = (\<lambda>b n. (VNil, Some NotInSpec)),
          formatBinaryTime = (\<lambda>b n. (VNil, Some NotInSpec)),
          parseBinaryDateTime =
            (\<lambda>num b. if num = 0 \<or> num = 4 \<or> num = 7 \<or> num = 11
                     then (VTime (GoTime (num = 0) (Inl NotInSpec)), None)
                     else (VNil, Some (Errorf ''invalid length''))),
          formatBinaryDateTime = (\<lambda>b n. (VNil, Some NotInSpec))\<rparr>"

definition mkField :: "byte \<Rightarrow> 16 word \<Rightarrow> mysqlField" where
  "mkField ft fl = \<lparr>tableName = [], name = [], flags = fl, fieldType = ft, decimals = 0\<rparr>"

definition rows3 :: mysqlRows where
  "rows3 = \<lparr>hasMc = True,
            rsColumns = [mkField fieldTypeTiny flagUnsigned, mkField fieldTypeLong 0,
                         mkField fieldTypeVarString 0],
            rsDone = False\<rparr>"

subsection \<open>Prepared statements\<close>

text \<open>\<open>mysqlStmt\<close>: \<open>stmtId\<close> is the field \<open>id\<close>; the connection is passed to each method.\<close>

record mysqlStmt =
  stmtId :: "32 word"
  paramCount :: int

text \<open>
  The first \<open>k\<close> bytes of a 64-bit value, least significant first:
  \<open>binary.LittleEndian.PutUint64\<close> of the Go library for \<open>k = 8\<close>.
  Modelled from the spec: \<open>uint64ToBytes\<close> (utils.go), which the source calls in its
  place where the value no longer fits the buffer, is not among the sources; section 4.3
  of the specification: "integers are all little-endian".
\<close>

definition leBytes :: "nat \<Rightarrow> 64 word \<Rightarrow> byte list" where
  "leBytes k w = map (\<lambda>j. ucast (drop_bit (8 * j) w)) [0..<k]"

text \<open>
  Modelled from the spec: \<open>appendLengthEncodedInteger\<close> (utils.go) is not among the
  sources. Section 4.3 gives the prefix bands of the length-encoded integer, section 8
  the encoded lengths "1/3/4/9 bytes per the documented prefix bands".
\<close>

definition appendLengthEncodedInteger :: "byte list \<Rightarrow> 64 word \<Rightarrow> byte list" where
  "appendLengthEncodedInteger b n =
     (if n \<le> 250 then b @ [ucast n]
      else if n \<le> 0xffff then b @ [0xfc] @ leBytes 2 n
      else if n \<le> 0xffffff then b @ [0xfd] @ leBytes 3 n
      else b @ [0xfe] @ leBytes 8 n)"

text \<open>Writing the bytes \<open>bs\<close> into \<open>data\<close> from offset \<open>off\<close> on.\<close>

fun putBytes :: "byte list \<Rightarrow> nat \<Rightarrow> byte list \<Rightarrow> byte list" where
  "putBytes data off [] = data"
| "putBytes data off (b # bs) = putBytes (data[off := b]) (Suc off) bs"

text \<open>
  The loop of \<open>writeCommandLongData\<close>, with the remaining \<open>data\<close>, \<open>argLen\<close> and the
  current \<open>pktLen\<close>. With \<open>maxAllowedPacket = 8\<close> and writes that succeed the loop makes no
  progress, so the function is partial: \<open>None\<close> stands for not returning. The header that
  \<open>writePacket\<close> writes into the first four bytes of \<open>data\<close> is overwritten in the next
  round before it is read.
\<close>

partial_function (option) writeCommandLongDataLoop ::
  "mysqlStmt \<Rightarrow> int \<Rightarrow> int \<Rightarrow> mysqlConn \<Rightarrow> byte list \<Rightarrow> int \<Rightarrow> int
     \<Rightarrow> (mysqlConn \<times> error option) option" where
  "writeCommandLongDataLoop stmt paramID maxLen mc data argLen pktLen =
     (if argLen > 0 then
        let pktLen1 = (if 7 + argLen < maxLen then 7 + argLen else pktLen);
            mc0 = mc\<lparr>sequence := 0\<rparr>
        in if length data < 11 then Some (mc0, Some RuntimePanic)
           else
             let data1 = data[4 := comStmtSendLongData,
                              5 := ucast (stmtId stmt),
                              6 := ucast (drop_bit 8 (stmtId stmt)),
                              7 := ucast (drop_bit 16 (stmtId stmt)),
                              8 := ucast (drop_bit 24 (stmtId stmt)),
                              9 := word_of_int paramID,
                              10 := word_of_int (drop_bit 8 paramID)]
             in if 4 + pktLen1 < 0 \<or> int (length data1) < 4 + pktLen1
                then Some (mc0, Some RuntimePanic)
                else case writePacket mc0 (take (nat (4 + pktLen1)) data1) of
                  (mc1, Some err) \<Rightarrow> Some (mc1, Some err)
                | (mc1, None) \<Rightarrow>
                    if pktLen1 - 7 < 0 \<or> int (length data1) < pktLen1 - 7
                    then Some (mc1, Some RuntimePanic)
                    else writeCommandLongDataLoop stmt paramID maxLen mc1
                           (drop (nat (pktLen1 - 7)) data1) (argLen - (pktLen1 - 7)) pktLen1
      else Some (mc\<lparr>sequence := 0\<rparr>, None))"

definition writeCommandLongData ::
  "mysqlStmt \<Rightarrow> mysqlConn \<Rightarrow> int \<Rightarrow> byte list \<Rightarrow> (mysqlConn \<times> error option) option" where
  "writeCommandLongData stmt mc paramID arg =
     writeCommandLongDataLoop stmt paramID (maxAllowedPacket mc - 1) mc
       (make_bytes 11 @ arg) (int (length arg)) (maxAllowedPacket mc - 1)"

text \<open>
  The state of the parameter loop of \<open>writeExecutePacket\<close>: the array behind \<open>data\<close>
  (\<open>nullMask\<close>, \<open>paramTypes\<close> and, at first, \<open>paramValues\<close> are slices of it), the
  contents of \<open>paramValues\<close>, and whether \<open>paramValues\<close> has been reallocated, which is
  what \<open>valuesCap != cap(paramValues)\<close> tests. \<open>vp\<close> is the offset of the values in
  \<open>data\<close>, \<open>tp\<close> that of the types, 14 that of the NULL bitmap. An \<open>append\<close> writes into
  \<open>data\<close> while the values still fit its capacity and moves them to a new array
  otherwise.
\<close>

type_synonym execBuf = "byte list \<times> byte list \<times> bool"

definition appendValues :: "nat \<Rightarrow> execBuf \<Rightarrow> byte list \<Rightarrow> execBuf" where
  "appendValues vp st bs =
     (case st of (data, vals, re) \<Rightarrow>
        if \<not> re \<and> vp + length vals + length bs \<le> length data
        then (putBytes data (vp + length vals) bs, vals @ bs, False)
        else (data, vals @ bs, True))"

definition setType :: "nat \<Rightarrow> nat \<Rightarrow> byte \<Rightarrow> byte \<Rightarrow> execBuf \<Rightarrow> execBuf" where
  "setType tp i t f st =
     (case st of (data, vals, re) \<Rightarrow> (data[tp + i + i := t, tp + i + i + 1 := f], vals, re))"

definition setNull :: "nat \<Rightarrow> nat \<Rightarrow> execBuf \<Rightarrow> execBuf" where
  "setNull tp i st =
     (case st of (data, vals, re) \<Rightarrow>
        setType tp i fieldTypeNULL 0x00
          (data[14 + i div 8 := (data ! (14 + i div 8)) OR push_bit (i mod 8) 1], vals, re))"

definition appendLenEnc :: "nat \<Rightarrow> execBuf \<Rightarrow> byte list \<Rightarrow> execBuf" where
  "appendLenEnc vp st v =
     appendValues vp
       (appendValues vp st (appendLengthEncodedInteger [] (of_nat (length v)))) v"

text \<open>
  One round of the loop \<open>for i, arg := range args\<close>: the connection and the state it
  leaves, or the connection and the error with which \<open>writeExecutePacket\<close> returns;
  \<open>None\<close> when \<open>writeCommandLongData\<close> does not return.
\<close>

definition execArg ::
  "mysqlStmt \<Rightarrow> int \<Rightarrow> nat \<Rightarrow> nat \<Rightarrow> nat \<Rightarrow> driverValue \<Rightarrow> mysqlConn \<Rightarrow> execBuf
     \<Rightarrow> ((mysqlConn \<times> error) + (mysqlConn \<times> execBuf)) option" where
  "execArg stmt longDataSize tp vp i arg mc st =
     (if arg = VNil then Some (Inr (mc, setNull tp i st))
      else
        case (case arg of VRawMessage v \<Rightarrow> VBytes v | VRawMessageNil \<Rightarrow> VBytesNil | _ \<Rightarrow> arg) of
          VInt64 v \<Rightarrow>
            Some (Inr (mc, appendValues vp (setType tp i fieldTypeLongLong 0x00 st) (leBytes 8 v)))
        | VUint64 v \<Rightarrow>
            Some (Inr (mc, appendValues vp (setType tp i fieldTypeLongLong 0x80 st) (leBytes 8 v)))
        | VFloat64 v \<Rightarrow>
            Some (Inr (mc, appendValues vp (setType tp i fieldTypeDouble 0x00 st) (leBytes 8 v)))
        | VBool v \<Rightarrow>
            Some (Inr (mc, appendValues vp (setType tp i fieldTypeTiny 0x00 st)
                             [if v then 0x01 else 0x00]))
        | VBytes v \<Rightarrow>
            if int (length v) < longDataSize
            then Some (Inr (mc, appendLenEnc vp (setType tp i fieldTypeString 0x00 st) v))
            else (case writeCommandLongData stmt mc (int i) v of
                    None \<Rightarrow> None
                  | Some (mc1, Some err) \<Rightarrow> Some (Inl (mc1, err))
                  | Some (mc1, None) \<Rightarrow> Some (Inr (mc1, setType tp i fieldTypeString 0x00 st)))
        | VBytesNil \<Rightarrow> Some (Inr (mc, setNull tp i st))
        | VString v \<Rightarrow>
            if int (length v) < longDataSize
            then Some (Inr (mc, appendLenEnc vp (setType tp i fieldTypeString 0x00 st) v))
            else (case writeCommandLongData stmt mc (int i) v of
                    None \<Rightarrow> None
                  | Some (mc1, Some err) \<Rightarrow> Some (Inl (mc1, err))
                  | Some (mc1, None) \<Rightarrow> Some (Inr (mc1, setType tp i fieldTypeString 0x00 st)))
        | VTime (GoTime isZero formatted) \<Rightarrow>
            if isZero
            then Some (Inr (mc, appendLenEnc vp (setType tp i fieldTypeString 0x00 st)
                                  [0x30, 0x30, 0x30, 0x30, 0x2d, 0x30, 0x30, 0x2d, 0x30, 0x30]))
            else (case formatted of
                    Inl err \<Rightarrow> Some (Inl (mc, err))
                  | Inr b \<Rightarrow>
                      Some (Inr (mc, appendLenEnc vp (setType tp i fieldTypeString 0x00 st) b)))
        | _ \<Rightarrow> Some (Inl (mc, Errorf ''cannot convert type'')))"

fun execArgs ::
  "mysqlStmt \<Rightarrow> int \<Rightarrow> nat \<Rightarrow> nat \<Rightarrow> nat \<Rightarrow> driverValue list \<Rightarrow> mysqlConn \<Rightarrow> execBuf
     \<Rightarrow> ((mysqlConn \<times> error) + (mysqlConn \<times> execBuf)) option" where
  "execArgs stmt longDataSize tp vp i [] mc st = Some (Inr (mc, st))"
| "execArgs stmt longDataSize tp vp i (arg # args) mc st =
     (case execArg stmt longDataSize tp vp i arg mc st of
        None \<Rightarrow> None
      | Some (Inl e) \<Rightarrow> Some (Inl e)
      | Some (Inr (mc1, st1)) \<Rightarrow> execArgs stmt longDataSize tp vp (Suc i) args mc1 st1)"

text \<open>Go's integer division, which truncates towards zero.\<close>

definition truncDiv :: "int \<Rightarrow> int \<Rightarrow> int" where
  "truncDiv a b =
     (if (a < 0) = (b < 0) then \<bar>a\<bar> div \<bar>b\<bar> else - (\<bar>a\<bar> div \<bar>b\<bar>))"

text \<open>
  \<open>writeExecutePacket\<close>. The capacity that \<open>append\<close> gives a reallocated slice belongs to
  the Go run time: \<open>grow n\<close> is that capacity for \<open>n\<close> elements, taken as at least \<open>n\<close>.
  The bytes that the packet code leaves in the primary buffer are scratch and are not
  carried back into \<open>connBuf\<close>.
\<close>

definition writeExecutePacket ::
  "(nat \<Rightarrow> nat) \<Rightarrow> mysqlStmt \<Rightarrow> mysqlConn \<Rightarrow> driverValue list \<Rightarrow> (mysqlConn \<times> error option) option" where
  "writeExecutePacket grow stmt mc args =
     (if int (length args) \<noteq> paramCount stmt
      then Some (mc, Some (Errorf ''argument count mismatch''))
      else
        let longDataSize0 = truncDiv (maxAllowedPacket mc) (paramCount stmt + 1);
            longDataSize = (if longDataSize0 < 64 then 64 else longDataSize0);
            mc0 = mc\<lparr>sequence := 0\<rparr>;
            taken = (if length args = 0
                     then takeBuffer (connBuf mc0) 14
                     else (connBuf mc0, takeCompleteBuffer (connBuf mc0)))
        in case taken of
             (b1, Inl err) \<Rightarrow> Some (mc0\<lparr>connBuf := b1\<rparr>, Some errBadConnNoWrite)
           | (b1, Inr s) \<Rightarrow>
               let mc1 = mc0\<lparr>connBuf := b1\<rparr>
               in if len s < 14 then Some (mc1, Some RuntimePanic)
                  else
                    let data = (arr s)[4 := comStmtExecute,
                                       5 := ucast (stmtId stmt),
                                       6 := ucast (drop_bit 8 (stmtId stmt)),
                                       7 := ucast (drop_bit 16 (stmtId stmt)),
                                       8 := ucast (drop_bit 24 (stmtId stmt)),
                                       9 := 0x00,
                                       10 := 0x01, 11 := 0x00, 12 := 0x00, 13 := 0x00]
                    in if length args = 0
                       then Some (writePacket mc1 (take (len s) data))
                       else
                         let maskLen = (length args + 7) div 8;
                             typesLen = 1 + 2 * length args;
                             data1 = (if 14 + maskLen + typesLen \<ge> length data
                                      then take 14 data @ make_bytes (maskLen + typesLen)
                                      else putBytes data 14 (make_bytes maskLen));
                             pos1 = 14 + maskLen;
                             data2 = data1[pos1 := 0x01];
                             tp = pos1 + 1;
                             vp = tp + length args * 2
                         in case execArgs stmt longDataSize tp vp 0 args mc1 (data2, [], False) of
                              None \<Rightarrow> None
                            | Some (Inl (mc2, err)) \<Rightarrow> Some (mc2, Some err)
                            | Some (Inr (mc2, (data3, vals, re))) \<Rightarrow>
                                if re then
                                  let n = vp + length vals;
                                      stored = (take vp data3 @ vals @ make_bytes (max n (grow n) - n), n)
                                  in case store (connBuf mc2) stored of
                                       (b2, Some err) \<Rightarrow>
                                         Some (mc2\<lparr>connBuf := b2\<rparr>, Some errBadConnNoWrite)
                                     | (b2, None) \<Rightarrow>
                                         Some (writePacket (mc2\<lparr>connBuf := b2\<rparr>)
                                                 (take vp data3 @ vals))
                                else Some (writePacket mc2 (take (vp + length vals) data3)))"

definition growDouble :: "nat \<Rightarrow> nat" where
  "growDouble n = 2 * n"

definition stmt0 :: mysqlStmt where
  "stmt0 = \<lparr>stmtId = 0x01020304, paramCount = 2\<rparr>"

text \<open>
  A stream for concrete runs: the rest of a first result set (one row, then an EOF packet
  whose status word has \<open>SERVER_MORE_RESULTS_EXISTS\<close>), then a second result set of one
  column (header, column definition, EOF, one row, EOF with a clear status word), with
  the sequence bytes 5 to 11.
\<close>

definition twoResults :: "byte list" where
  "twoResults =
     [2, 0, 0, 5, 0x01, 0x31] @
     [5, 0, 0, 6, 0xfe, 0, 0, 0x08, 0x00] @
     [1, 0, 0, 7, 0x01] @
     [4, 0, 0, 8, 0x03, 0x64, 0x65, 0x66] @
     [5, 0, 0, 9, 0xfe, 0, 0, 0x08, 0x00] @
     [2, 0, 0, 10, 0x01, 0x32] @
     [5, 0, 0, 11, 0xfe, 0, 0, 0x00, 0x00]"

definition noInfile :: infileHandler where
  "noInfile file mc = (mc, None)"

text \<open>
  A text row with one LONGBLOB field of \<open>2 ^ 24\<close> bytes: the length-encoded prefix of such a
  field is \<open>0xfe\<close> followed by the length in eight bytes, so the payload of the row packet
  starts with \<open>0xfe\<close> and is \<open>9 + 2 ^ 24\<close> bytes long.
\<close>

definition bigRow :: "byte list" where
  "bigRow = [0xfe, 0, 0, 0, 1, 0, 0, 0, 0] @ replicate 16777216 0x61"

text \<open>
  The rest of that result set as the server sends it: a second row, with the one-byte
  field \<open>b\<close>, and the EOF packet.
\<close>

definition unreadPackets :: "byte list" where
  "unreadPackets = [2, 0, 0, 6, 0x01, 0x62] @ [5, 0, 0, 7, 0xfe, 0, 0, 0x02, 0x00]"

text \<open>
  The rows of the result set on the wire, from sequence number 4 on: the big row, split
  into a fragment of \<open>maxPacketSize\<close> bytes and a last fragment of 10 bytes, then the
  packets above.
\<close>

definition bigRowResult :: "byte list" where
  "bigRowResult =
     [0xff, 0xff, 0xff, 4] @ take 16777215 bigRow @
     [10, 0, 0, 5] @ drop 16777215 bigRow @
     unreadPackets"

definition blobRows :: mysqlRows where
  "blobRows = \<lparr>hasMc = True, rsColumns = [mkField fieldTypeLongBLOB 0], rsDone = False\<rparr>"

text \<open>
  The number of headers that the specification's sentence on \<open>writePacket\<close> gives for a
  payload of \<open>L\<close> bytes: the ceiling of \<open>L / maxPacketSize\<close>, and one more when \<open>L\<close> is a
  positive multiple of \<open>maxPacketSize\<close>.
\<close>

definition claimedHeaders :: "int \<Rightarrow> int" where
  "claimedHeaders L =
     (L + maxPacketSize - 1) div maxPacketSize
       + (if 0 < L \<and> L mod maxPacketSize = 0 then 1 else 0)"

section \<open>Properties of writePacket\<close>

text \<open>
  C1, as stated, fails for the empty payload: \<open>writePacket\<close> on the four reserved bytes
  alone (as \<open>writeAuthSwitchPacket\<close> sends for empty auth data) puts one header on the
  wire, where the ceiling of \<open>0 / maxPacketSize\<close> is 0.
\<close>

theorem writePacket_empty_payload_counterexample:
  "int (length [0, 0, 0, 0 :: byte]) - 4 \<le> maxAllowedPacket conn0
   \<and> writePacket conn0 [0, 0, 0, 0]
       = (conn0\<lparr>wire := [0, 0, 0, 0], nwrites := 1, sequence := 1\<rparr>, None)
   \<and> wireFrames [0, 0, 0, 0] = Some [(0, 0)]
   \<and> int (length [(0 :: int, 0 :: byte)]) \<noteq> claimedHeaders 0"
  by (simp add: writePacket_def writePacketLoop.simps putHeader_def conn0_def acceptAll_def
      maxPacketSize_def headerLen_zero claimedHeaders_def)

text \<open>
  C1, amended: for a payload of \<open>L\<close> bytes with \<open>L \<le> maxAllowedPacket\<close> and
  \<open>L \<le> maxPacketSize\<close>, on a socket that accepts every write in full, \<open>writePacket\<close>
  succeeds and the wire receives exactly one physical packet when \<open>L < maxPacketSize\<close>
  (also for \<open>L = 0\<close>): the header with length \<open>L\<close> and the current sequence byte, then
  the payload; and exactly two when \<open>L = maxPacketSize\<close>: the full packet and an empty
  trailing packet whose sequence byte is the previous one plus 1 modulo 256. The sequence
  counter of the connection ends one past the last header written.
\<close>

theorem writePacket_frames:
  assumes "netWrite mc = acceptAll" and "4 \<le> length data"
    and "int (length data) - 4 \<le> maxAllowedPacket mc"
  shows "(int (length data) - 4 < maxPacketSize \<longrightarrow>
            writePacket mc data =
              (mc\<lparr>wire := wire mc @
                     [word_of_int (int (length data) - 4),
                      word_of_int (drop_bit 8 (int (length data) - 4)),
                      word_of_int (drop_bit 16 (int (length data) - 4)), sequence mc]
                     @ drop 4 data,
                  nwrites := Suc (nwrites mc), sequence := sequence mc + 1\<rparr>, None)
            \<and> wireFrames
                 ([word_of_int (int (length data) - 4),
                   word_of_int (drop_bit 8 (int (length data) - 4)),
                   word_of_int (drop_bit 16 (int (length data) - 4)), sequence mc]
                  @ drop 4 data)
                = Some [(int (length data) - 4, sequence mc)])
       \<and> (int (length data) - 4 = maxPacketSize \<longrightarrow>
            writePacket mc data =
              (mc\<lparr>wire := wire mc @ [0xff, 0xff, 0xff, sequence mc] @ drop 4 data
                             @ [0, 0, 0, sequence mc + 1],
                  nwrites := Suc (Suc (nwrites mc)), sequence := sequence mc + 2\<rparr>, None)
            \<and> wireFrames ([0xff, 0xff, 0xff, sequence mc] @ drop 4 data
                             @ [0, 0, 0, sequence mc + 1])
                = Some [(maxPacketSize, sequence mc), (0, sequence mc + 1)])"
proof (intro conjI impI)
  let ?L = "int (length data) - 4"
  assume lt: "?L < maxPacketSize"
  have hdr: "putHeader ?L (sequence mc) data =
      [word_of_int ?L, word_of_int (drop_bit 8 ?L), word_of_int (drop_bit 16 ?L), sequence mc]
      @ drop 4 data"
    using putHeader_split [OF assms(2), of ?L "sequence mc"] lt by simp
  show "writePacket mc data =
      (mc\<lparr>wire := wire mc @
             [word_of_int ?L, word_of_int (drop_bit 8 ?L), word_of_int (drop_bit 16 ?L),
              sequence mc] @ drop 4 data,
          nwrites := Suc (nwrites mc), sequence := sequence mc + 1\<rparr>, None)"
    using writePacketLoop_last [OF assms(1,2) refl lt] assms(3) hdr
    by (simp add: writePacket_def Let_def)
  show "wireFrames
      ([word_of_int ?L, word_of_int (drop_bit 8 ?L), word_of_int (drop_bit 16 ?L),
        sequence mc] @ drop 4 data) = Some [(?L, sequence mc)]"
    using wireFrames_one [OF assms(2) refl lt, of "sequence mc"] hdr by simp
next
  let ?L = "int (length data) - 4"
  assume eq: "?L = maxPacketSize"
  then have len: "int (length data) = 4 + maxPacketSize"
    by simp
  have hdr: "putHeader maxPacketSize (sequence mc) data
               = [0xff, 0xff, 0xff, sequence mc] @ drop 4 data"
    using putHeader_split [OF assms(2), of maxPacketSize "sequence mc"] by simp
  show "writePacket mc data =
      (mc\<lparr>wire := wire mc @ [0xff, 0xff, 0xff, sequence mc] @ drop 4 data
                     @ [0, 0, 0, sequence mc + 1],
          nwrites := Suc (Suc (nwrites mc)), sequence := sequence mc + 2\<rparr>, None)"
    using writePacketLoop_full [OF assms(1) len] assms(3) eq hdr
    by (simp add: writePacket_def Let_def)
  show "wireFrames ([0xff, 0xff, 0xff, sequence mc] @ drop 4 data @ [0, 0, 0, sequence mc + 1])
          = Some [(maxPacketSize, sequence mc), (0, sequence mc + 1)]"
    using wireFrames_two [OF len, of "sequence mc" "sequence mc + 1"] hdr by simp
qed

theorem writePacket_frames_witness:
  "writePacket conn0 [0, 0, 0, 0, 3, 7]
     = (conn0\<lparr>wire := [2, 0, 0, 0, 3, 7], nwrites := 1, sequence := 1\<rparr>, None)
   \<and> wireFrames [2, 0, 0, 0, 3, 7] = Some [(2, 0)]
   \<and> writePacket conn0 (make_bytes 16777219)
     = (conn0\<lparr>wire := [0xff, 0xff, 0xff, 0] @ drop 4 (make_bytes 16777219) @ [0, 0, 0, 1],
              nwrites := 2, sequence := 2\<rparr>, None)
   \<and> wireFrames ([0xff, 0xff, 0xff, 0] @ drop 4 (make_bytes 16777219) @ [0, 0, 0, 1])
     = Some [(16777215, 0), (0, 1)]"
  using writePacket_frames [of conn0 "[0, 0, 0, 0, 3, 7]"]
    writePacket_frames [of conn0 "make_bytes 16777219"]
  by (simp add: conn0_def maxPacketSize_def make_bytes_def)

text \<open>
  C5: a payload longer than \<open>maxAllowedPacket\<close> makes \<open>writePacket\<close> return
  \<open>ErrPktTooLarge\<close> with the connection exactly as it was: nothing has been handed to the
  write loop, nothing is on the wire, and the closed latch is untouched.
\<close>

theorem writePacket_too_large:
  "int (length data) - 4 > maxAllowedPacket mc \<Longrightarrow>
     writePacket mc data = (mc, Some ErrPktTooLarge)
     \<and> nwrites (fst (writePacket mc data)) = nwrites mc
     \<and> wire (fst (writePacket mc data)) = wire mc
     \<and> closed (fst (writePacket mc data)) = closed mc
     \<and> isBroken (fst (writePacket mc data)) = isBroken mc"
  by (simp add: writePacket_def)

theorem writePacket_too_large_witness:
  "int (length [0, 0, 0, 0, 1, 2, 3 :: byte]) - 4 > maxAllowedPacket (conn0\<lparr>maxAllowedPacket := 2\<rparr>)
   \<and> writePacket (conn0\<lparr>maxAllowedPacket := 2\<rparr>) [0, 0, 0, 0, 1, 2, 3]
       = (conn0\<lparr>maxAllowedPacket := 2\<rparr>, Some ErrPktTooLarge)
   \<and> \<not> isBroken (fst (writePacket (conn0\<lparr>maxAllowedPacket := 2\<rparr>) [0, 0, 0, 0, 1, 2, 3]))"
  using writePacket_too_large [of "conn0\<lparr>maxAllowedPacket := 2\<rparr>" "[0, 0, 0, 0, 1, 2, 3]"]
  by (simp add: conn0_def isBroken_def)

text \<open>
  C10, as stated, fails for a short write: when the socket reports 3 bytes of a 5-byte
  packet and no error while a cancellation is pending, \<open>writePacket\<close> cleans up and returns
  \<open>ErrInvalidConn\<close>; the cancellation error does not take precedence, since the branch for
  \<open>err == nil\<close> does not read the cancellation slot.
\<close>

theorem writePacket_short_write_counterexample:
  "canceled (conn0\<lparr>netWrite := (shortWrite 3), canceled := Some Canceled\<rparr>)
     = Some Canceled
   \<and> writePacket (conn0\<lparr>netWrite := (shortWrite 3), canceled := Some Canceled\<rparr>)
        [0, 0, 0, 0, 7]
     = (conn0\<lparr>netWrite := (shortWrite 3), canceled := Some Canceled,
              wire := [1, 0, 0], nwrites := 1, closed := True\<rparr>, Some ErrInvalidConn)"
  by (simp add: writePacket_def writePacketLoop.simps putHeader_def conn0_def cleanup_def
      maxPacketSize_def shortWrite_def)

text \<open>
  C10, amended. In any round of the loop, with \<open>d\<close> the remaining data under its header:
  when the write reports an error and a cancellation is pending, the cancellation error
  is returned and \<open>writePacket\<close> does no cleanup; when it reports an error, no
  cancellation is pending and the byte count is not 0, the connection is cleaned up and
  \<open>ErrInvalidConn\<close> returned; when it reports no error but a byte count other than
  \<open>4 + size\<close>, the connection is cleaned up and \<open>ErrInvalidConn\<close> returned whether or not
  a cancellation is pending. For the first chunk of a call, an error with byte count 0
  and no pending cancellation returns \<open>errBadConnNoWrite\<close> with nothing on the wire and
  no cleanup.
\<close>

theorem writePacket_failure:
  assumes "4 \<le> length data"
  shows "(netWrite mc (nwrites mc) (putHeader pktLen (sequence mc) data) = Written n (Some e)
            \<and> canceled mc = Some c \<longrightarrow>
          writePacketLoop mc pktLen data =
            (mc\<lparr>wire := wire mc @ take (nat n) (putHeader pktLen (sequence mc) data),
                nwrites := Suc (nwrites mc)\<rparr>, Some c))
       \<and> (netWrite mc (nwrites mc) (putHeader pktLen (sequence mc) data) = Written n (Some e)
            \<and> canceled mc = None \<and> n \<noteq> 0 \<longrightarrow>
          writePacketLoop mc pktLen data =
            (mc\<lparr>wire := wire mc @ take (nat n) (putHeader pktLen (sequence mc) data),
                nwrites := Suc (nwrites mc), closed := True\<rparr>, Some ErrInvalidConn))
       \<and> (netWrite mc (nwrites mc) (putHeader pktLen (sequence mc) data) = Written n None
            \<and> n \<noteq> 4 + (if pktLen \<ge> maxPacketSize then maxPacketSize else pktLen) \<longrightarrow>
          writePacketLoop mc pktLen data =
            (mc\<lparr>wire := wire mc @ take (nat n) (putHeader pktLen (sequence mc) data),
                nwrites := Suc (nwrites mc), closed := True\<rparr>, Some ErrInvalidConn))
       \<and> (netWrite mc (nwrites mc) (putHeader (int (length data) - 4) (sequence mc) data)
              = Written 0 (Some e)
            \<and> canceled mc = None \<and> int (length data) - 4 \<le> maxAllowedPacket mc \<longrightarrow>
          writePacket mc data = (mc\<lparr>nwrites := Suc (nwrites mc)\<rparr>, Some errBadConnNoWrite))"
  using assms
  by (simp add: writePacket_def writePacketLoop.simps [of mc] Let_def cleanup_def)

theorem writePacket_failure_witness:
  "writePacketLoop (conn0\<lparr>netWrite := (brokenPipe 2),
                         canceled := Some Canceled\<rparr>) 1 [0, 0, 0, 0, 7]
     = (conn0\<lparr>netWrite := (brokenPipe 2),
              canceled := Some Canceled, wire := [1, 0], nwrites := 1\<rparr>, Some Canceled)
   \<and> writePacketLoop (conn0\<lparr>netWrite := (brokenPipe 2)\<rparr>)
        1 [0, 0, 0, 0, 7]
     = (conn0\<lparr>netWrite := (brokenPipe 2),
              wire := [1, 0], nwrites := 1, closed := True\<rparr>, Some ErrInvalidConn)
   \<and> writePacketLoop (conn0\<lparr>netWrite := (shortWrite 3)\<rparr>) 1 [0, 0, 0, 0, 7]
     = (conn0\<lparr>netWrite := (shortWrite 3),
              wire := [1, 0, 0], nwrites := 1, closed := True\<rparr>, Some ErrInvalidConn)
   \<and> writePacket (conn0\<lparr>netWrite := (brokenPipe 0)\<rparr>)
        [0, 0, 0, 0, 7]
     = (conn0\<lparr>netWrite := (brokenPipe 0),
              nwrites := 1\<rparr>, Some errBadConnNoWrite)"
  using
    writePacket_failure [of "[0, 0, 0, 0, 7]"
      "conn0\<lparr>netWrite := (brokenPipe 2),
             canceled := Some Canceled\<rparr>" 1 2 "IOError ''broken pipe''" Canceled]
    writePacket_failure [of "[0, 0, 0, 0, 7]"
      "conn0\<lparr>netWrite := (brokenPipe 2)\<rparr>"
      1 2 "IOError ''broken pipe''"]
    writePacket_failure [of "[0, 0, 0, 0, 7]"
      "conn0\<lparr>netWrite := (shortWrite 3)\<rparr>" 1 3]
    writePacket_failure [of "[0, 0, 0, 0, 7]"
      "conn0\<lparr>netWrite := (brokenPipe 0)\<rparr>"
      1 0 "IOError ''broken pipe''"]
  by (simp add: conn0_def putHeader_def maxPacketSize_def shortWrite_def brokenPipe_def)

text \<open>
  In a later round the test \<open>n == 0 && pktLen == len(data)-4\<close> still holds, because
  \<open>pktLen\<close> and \<open>data\<close> shrink together: after a full first packet of \<open>maxPacketSize\<close>
  bytes has gone out, a failed write of the trailing empty packet with byte count 0
  returns \<open>errBadConnNoWrite\<close> and leaves the connection open, against the comment "only
  for the first loop iteration when nothing was written yet".
\<close>

lemma writePacket_later_round_no_write:
  assumes "int (length data) = 4 + maxPacketSize"
    and "maxPacketSize \<le> maxAllowedPacket mc"
    and "canceled mc = None"
    and "netWrite mc (nwrites mc) (putHeader maxPacketSize (sequence mc) data)
           = Written (4 + maxPacketSize) None"
    and "netWrite mc (Suc (nwrites mc)) [0, 0, 0, sequence mc + 1] = Written 0 (Some e)"
  shows "writePacket mc data =
    (mc\<lparr>wire := wire mc @ putHeader maxPacketSize (sequence mc) data,
        nwrites := Suc (Suc (nwrites mc)), sequence := sequence mc + 1\<rparr>,
     Some errBadConnNoWrite)"
proof -
  let ?d = "putHeader maxPacketSize (sequence mc) data"
  let ?mc = "mc\<lparr>wire := wire mc @ ?d, nwrites := Suc (nwrites mc),
                 sequence := sequence mc + 1\<rparr>"
  have len: "length (drop (nat maxPacketSize) ?d) = 4"
    using assms(1) by (simp add: maxPacketSize_def)
  have hdr: "putHeader 0 s (drop (nat maxPacketSize) ?d) = [0, 0, 0, s]" for s
    using putHeader_split [of "drop (nat maxPacketSize) ?d" 0 s] len
    by (simp add: maxPacketSize_def)
  have "writePacket mc data = writePacketLoop mc maxPacketSize data"
    using assms(1,2) by (simp add: writePacket_def Let_def)
  also have "\<dots> = writePacketLoop ?mc 0 (drop (nat maxPacketSize) ?d)"
    using assms(1,4)
    by (subst writePacketLoop.simps) (simp add: Let_def maxPacketSize_def)
  also have "\<dots> = (?mc\<lparr>nwrites := Suc (nwrites ?mc)\<rparr>, Some errBadConnNoWrite)"
    using assms(3,5) len hdr
    by (subst writePacketLoop.simps) (simp add: Let_def maxPacketSize_def)
  finally show ?thesis
    by simp
qed

section \<open>Properties of the framing buffer\<close>

text \<open>
  C7, as stated, fails: \<open>takeSmallBuffer\<close> never compares the requested length with
  \<open>defaultBufSize\<close>. A primary buffer that has grown to 8192 bytes hands out 5000 bytes.
\<close>

theorem takeSmallBuffer_unchecked_counterexample:
  "lengthb \<lparr>buf = make_bytes 8192, lengthb = 0\<rparr> = 0
   \<and> takeSmallBuffer \<lparr>buf = make_bytes 8192, lengthb = 0\<rparr> 5000 = Inr (make_bytes 8192, 5000)
   \<and> \<not> (5000 \<le> defaultBufSize)"
  by (simp add: takeSmallBuffer_def make_bytes_def defaultBufSize_def)

text \<open>
  C7, amended: with a live write buffer \<open>takeSmallBuffer\<close> returns \<open>ErrBusyBuffer\<close>;
  otherwise, for a length between 0 and the capacity of the primary buffer (whatever that
  capacity is, 4096 or more), it returns the slice of the first \<open>n\<close> elements of the primary
  buffer's own array, and a length outside that range makes the slice expression panic.
\<close>

theorem takeSmallBuffer_spec:
  "(lengthb b > 0 \<longrightarrow> takeSmallBuffer b n = Inl ErrBusyBuffer)
   \<and> (lengthb b \<le> 0 \<and> 0 \<le> n \<and> n \<le> int (length (buf b)) \<longrightarrow>
        takeSmallBuffer b n = Inr (buf b, nat n)
        \<and> arr (buf b, nat n) = buf b \<and> len (buf b, nat n) = nat n)
   \<and> (lengthb b \<le> 0 \<and> (n < 0 \<or> int (length (buf b)) < n) \<longrightarrow>
        takeSmallBuffer b n = Inl RuntimePanic)"
  by (auto simp: takeSmallBuffer_def arr_def len_def)

theorem takeSmallBuffer_spec_witness:
  "takeSmallBuffer (newBuffer\<lparr>lengthb := 7\<rparr>) 10 = Inl ErrBusyBuffer
   \<and> takeSmallBuffer newBuffer 36 = Inr (buf newBuffer, 36)
   \<and> takeSmallBuffer newBuffer 4097 = Inl RuntimePanic"
  using takeSmallBuffer_spec [of "newBuffer\<lparr>lengthb := 7\<rparr>" 10]
    takeSmallBuffer_spec [of newBuffer 36]
    takeSmallBuffer_spec [of newBuffer 4097]
  by (simp add: newBuffer_def make_bytes_def defaultBufSize_def)

text \<open>
  C8, as stated, fails: the bound that \<open>store\<close> tests is \<open>maxPacketSize\<close>, not the cached
  cap of 256 KiB. A buffer of capacity 300000 replaces a primary buffer of 4096 bytes.
\<close>

theorem store_cached_cap_counterexample:
  "lengthb newBuffer = 0
   \<and> \<not> (int (cap (make_bytes 300000, 0)) \<le> maxCachedBufSize)
   \<and> store newBuffer (make_bytes 300000, 0) = (newBuffer\<lparr>buf := make_bytes 300000\<rparr>, None)
   \<and> buf (newBuffer\<lparr>buf := make_bytes 300000\<rparr>) \<noteq> buf newBuffer"
proof -
  have "length (make_bytes 300000) \<noteq> length (buf newBuffer)"
    by (simp add: newBuffer_def make_bytes_def defaultBufSize_def)
  then have "make_bytes 300000 \<noteq> buf newBuffer"
    by metis
  then show ?thesis
    by (simp add: store_def cap_def arr_def make_bytes_def newBuffer_def defaultBufSize_def
        maxCachedBufSize_def maxPacketSize_def)
qed

text \<open>
  C8, amended: with no live write buffer, \<open>store\<close> makes the passed buffer (at its full
  capacity) the primary one exactly when its capacity is strictly larger than the primary
  buffer's and at most \<open>maxPacketSize\<close> (2^24 - 1); otherwise the primary buffer stays;
  in both cases no error is returned.
\<close>

theorem store_spec:
  "lengthb b \<le> 0 \<Longrightarrow>
     store b s =
       (if length (buf b) < cap s \<and> int (cap s) \<le> 2 ^ 24 - 1
        then b\<lparr>buf := arr s\<rparr> else b, None)"
  by (simp add: store_def maxPacketSize_def)

theorem store_spec_witness:
  "lengthb newBuffer \<le> 0
   \<and> store newBuffer (make_bytes 300000, 0) = (newBuffer\<lparr>buf := make_bytes 300000\<rparr>, None)
   \<and> store newBuffer (make_bytes 100, 0) = (newBuffer, None)"
  using store_spec [of newBuffer "(make_bytes 300000, 0)"] store_spec [of newBuffer "(make_bytes 100, 0)"]
  by (simp add: cap_def arr_def make_bytes_def newBuffer_def defaultBufSize_def)

section \<open>Properties of the packet reader\<close>

text \<open>
  The big row and one round of the loop on a packet whose body is on the stream.
\<close>

lemma bigRow_length: "length bigRow = 16777225"
  by (simp add: bigRow_def)

lemma bigRow_first: "bigRow ! 0 = 0xfe"
  by (simp add: bigRow_def)

lemma bigRow_nonempty: "bigRow \<noteq> []"
  by (simp add: bigRow_def)

lemma readPacketLoop_fragment:
  assumes "rx mc = b0 # b1 # b2 # sequence mc # rest"
    and "headerLen b0 b1 b2 = int n" and "n \<le> length rest" and "0 < n"
  shows "readPacketLoop mc prevData =
           (if int n < maxPacketSize
            then (mc\<lparr>sequence := sequence mc + 1, rx := drop n rest\<rparr>,
                  Inr (appendPrev prevData (take n rest)))
            else readPacketLoop (mc\<lparr>sequence := sequence mc + 1, rx := drop n rest\<rparr>)
                   (Some (appendPrev prevData (take n rest))))"
  using assms
  by (simp add: readPacketLoop.simps [of mc] Let_def readNext_def)

text \<open>
  \<open>readPacket\<close> puts the two fragments of the big row together and leaves the second row
  and the EOF packet on the stream.
\<close>

lemma readPacket_bigRow:
  "readPacket (conn0\<lparr>sequence := 4, rx := bigRowResult\<rparr>)
     = (conn0\<lparr>sequence := 6, rx := unreadPackets\<rparr>, Inr bigRow)"
proof -
  let ?r1 = "take 16777215 bigRow @ [10, 0, 0, 5] @ drop 16777215 bigRow @ unreadPackets"
  let ?mc2 = "conn0\<lparr>sequence := 5, rx := [10, 0, 0, 5] @ drop 16777215 bigRow @ unreadPackets\<rparr>"
  have h1: "headerLen 0xff 0xff 0xff = int 16777215"
    by (simp add: headerLen_def)
  have h2: "headerLen 10 0 0 = int 10"
    by (simp add: headerLen_def)
  have s1: "readPacketLoop (conn0\<lparr>sequence := 4, rx := bigRowResult\<rparr>) None
              = readPacketLoop ?mc2 (Some (take 16777215 bigRow))"
    using readPacketLoop_fragment [of "conn0\<lparr>sequence := 4, rx := bigRowResult\<rparr>"
        "0xff" "0xff" "0xff" ?r1 16777215 None] h1
    by (simp add: bigRowResult_def bigRow_length maxPacketSize_def appendPrev_def)
  have s2: "readPacketLoop ?mc2 (Some (take 16777215 bigRow))
              = (conn0\<lparr>sequence := 6, rx := unreadPackets\<rparr>, Inr bigRow)"
    using readPacketLoop_fragment [of ?mc2 10 0 0 "drop 16777215 bigRow @ unreadPackets" 10
        "Some (take 16777215 bigRow)"] h2
    by (simp add: bigRow_length maxPacketSize_def appendPrev_def)
  show ?thesis
    unfolding readPacket_def using s1 s2 by simp
qed

text \<open>
  C3: in any round of the loop of \<open>readPacket\<close>, once the four header bytes have been
  read: a sequence byte that differs from the counter closes the connection and returns
  \<open>ErrPktSyncMul\<close> when it is greater than the counter and \<open>ErrPktSync\<close> otherwise; a
  sequence byte equal to the counter increments the counter by one on every path that
  follows: the empty terminator of a split packet, a last fragment, a full fragment after
  which the loop goes on, an empty packet with no fragment before it (the connection is
  closed, \<open>ErrInvalidConn\<close>), and a body that cannot be read (the pending cancellation
  error, or the connection is closed and \<open>ErrInvalidConn\<close> is returned).
\<close>

theorem readPacket_sync:
  assumes "rx mc = b0 # b1 # b2 # s # rest"
  shows "(s \<noteq> sequence mc \<longrightarrow>
            readPacketLoop mc prevData =
              (Close (mc\<lparr>rx := rest\<rparr>),
               Inl (if s > sequence mc then ErrPktSyncMul else ErrPktSync))
            \<and> isBroken (Close (mc\<lparr>rx := rest\<rparr>)))
       \<and> (s = sequence mc \<and> headerLen b0 b1 b2 = 0 \<longrightarrow>
            readPacketLoop mc (Some p) = (mc\<lparr>sequence := sequence mc + 1, rx := rest\<rparr>, Inr p))
       \<and> (s = sequence mc \<and> 0 < headerLen b0 b1 b2 \<and> headerLen b0 b1 b2 < maxPacketSize
            \<and> headerLen b0 b1 b2 \<le> int (length rest) \<longrightarrow>
            readPacketLoop mc prevData =
              (mc\<lparr>sequence := sequence mc + 1, rx := drop (nat (headerLen b0 b1 b2)) rest\<rparr>,
               Inr (appendPrev prevData (take (nat (headerLen b0 b1 b2)) rest))))
       \<and> (s = sequence mc \<and> maxPacketSize \<le> headerLen b0 b1 b2
            \<and> headerLen b0 b1 b2 \<le> int (length rest) \<longrightarrow>
            readPacketLoop mc prevData =
              readPacketLoop
                (mc\<lparr>sequence := sequence mc + 1, rx := drop (nat (headerLen b0 b1 b2)) rest\<rparr>)
                (Some (appendPrev prevData (take (nat (headerLen b0 b1 b2)) rest))))
       \<and> (s = sequence mc \<and> headerLen b0 b1 b2 = 0 \<longrightarrow>
            readPacketLoop mc None =
              (Close (mc\<lparr>sequence := sequence mc + 1, rx := rest\<rparr>), Inl ErrInvalidConn)
            \<and> sequence (fst (readPacketLoop mc None)) = sequence mc + 1)
       \<and> (s = sequence mc \<and> headerLen b0 b1 b2 \<noteq> 0
            \<and> int (length rest) < headerLen b0 b1 b2 \<longrightarrow>
            readPacketLoop mc prevData =
              (case canceled mc of
                 Some cerr \<Rightarrow> (mc\<lparr>sequence := sequence mc + 1, rx := rest\<rparr>, Inl cerr)
               | None \<Rightarrow>
                   (Close (mc\<lparr>sequence := sequence mc + 1, rx := rest\<rparr>), Inl ErrInvalidConn))
            \<and> sequence (fst (readPacketLoop mc prevData)) = sequence mc + 1)"
  using assms
  by (simp add: readPacketLoop.simps [of mc] Let_def Close_def cleanup_def isBroken_def
      readNext_def readFailed_def maxPacketSize_def split: option.split)

theorem readPacket_sync_witness:
  "readPacketLoop (conn0\<lparr>sequence := 1, rx := [1, 0, 0, 2, 0xAA]\<rparr>) None
     = (conn0\<lparr>sequence := 1, rx := [0xAA], closed := True\<rparr>, Inl ErrPktSyncMul)
   \<and> readPacketLoop (conn0\<lparr>sequence := 1, rx := [1, 0, 0, 0, 0xAA]\<rparr>) None
     = (conn0\<lparr>sequence := 1, rx := [0xAA], closed := True\<rparr>, Inl ErrPktSync)
   \<and> readPacketLoop (conn0\<lparr>sequence := 1, rx := [1, 0, 0, 1, 0xAA]\<rparr>) None
     = (conn0\<lparr>sequence := 2, rx := []\<rparr>, Inr [0xAA])
   \<and> readPacketLoop (conn0\<lparr>sequence := 1, rx := [0, 0, 0, 1, 0xAA]\<rparr>) (Some [7])
     = (conn0\<lparr>sequence := 2, rx := [0xAA]\<rparr>, Inr [7])
   \<and> readPacketLoop (conn0\<lparr>sequence := 1, rx := [0, 0, 0, 1, 0xAA]\<rparr>) None
     = (conn0\<lparr>sequence := 2, closed := True, rx := [0xAA]\<rparr>, Inl ErrInvalidConn)
   \<and> readPacketLoop (conn0\<lparr>sequence := 1, rx := [5, 0, 0, 1, 0xAA]\<rparr>) None
     = (conn0\<lparr>sequence := 2, closed := True, rx := [0xAA]\<rparr>, Inl ErrInvalidConn)
   \<and> readPacketLoop
        (conn0\<lparr>sequence := 1, canceled := Some Canceled, rx := [5, 0, 0, 1, 0xAA]\<rparr>) (Some [7])
     = (conn0\<lparr>sequence := 2, canceled := Some Canceled, rx := [0xAA]\<rparr>, Inl Canceled)
   \<and> readPacketLoop (conn0\<lparr>sequence := 4, rx := bigRowResult\<rparr>) None
     = readPacketLoop
         (conn0\<lparr>sequence := 5, rx := [10, 0, 0, 5] @ drop 16777215 bigRow @ unreadPackets\<rparr>)
         (Some (take 16777215 bigRow))"
  using readPacket_sync [of "conn0\<lparr>sequence := 1, rx := [1, 0, 0, 2, 0xAA]\<rparr>" 1 0 0 2 "[0xAA]" None]
    readPacket_sync [of "conn0\<lparr>sequence := 1, rx := [1, 0, 0, 0, 0xAA]\<rparr>" 1 0 0 0 "[0xAA]" None]
    readPacket_sync [of "conn0\<lparr>sequence := 1, rx := [1, 0, 0, 1, 0xAA]\<rparr>" 1 0 0 1 "[0xAA]" None]
    readPacket_sync [of "conn0\<lparr>sequence := 1, rx := [0, 0, 0, 1, 0xAA]\<rparr>" 0 0 0 1 "[0xAA]" None "[7]"]
    readPacket_sync [of "conn0\<lparr>sequence := 1, rx := [5, 0, 0, 1, 0xAA]\<rparr>" 5 0 0 1 "[0xAA]" None]
    readPacket_sync [of "conn0\<lparr>sequence := 1, canceled := Some Canceled, rx := [5, 0, 0, 1, 0xAA]\<rparr>"
        5 0 0 1 "[0xAA]" "Some [7]"]
    readPacket_sync [of "conn0\<lparr>sequence := 4, rx := bigRowResult\<rparr>" "0xff" "0xff" "0xff" 4
        "take 16777215 bigRow @ [10, 0, 0, 5] @ drop 16777215 bigRow @ unreadPackets" None]
  by (simp add: conn0_def headerLen_def maxPacketSize_def appendPrev_def Close_def
      cleanup_def isBroken_def bigRowResult_def bigRow_length)

text \<open>
  When \<open>discardResults\<close> returns without error, the status bit has been seen clear.
\<close>

lemma discardResults_clears:
  "discardResults h mc = (mc', None) \<Longrightarrow> status mc' AND statusMoreResultsExists = 0"
proof (induction h mc rule: discardResults.induct)
  case (1 h mc)
  show ?case
  proof (cases "status mc AND statusMoreResultsExists \<noteq> 0")
    case False
    then show ?thesis
      using "1.prems" by (subst (asm) discardResults.simps) simp
  next
    case True
    obtain mc1 r where hd: "readResultSetHeaderPacket h mc = (mc1, r)"
      by fastforce
    show ?thesis
    proof (cases r)
      case (Inl e)
      then show ?thesis
        using "1.prems" True hd by (subst (asm) discardResults.simps) simp
    next
      case (Inr resLen)
      show ?thesis
      proof (cases "resLen > 0")
        case False
        then have "discardResults h mc = discardResults h mc1"
          using True hd Inr by (subst discardResults.simps) simp
        then show ?thesis
          using "1.IH"(2) [OF True hd [symmetric] Inr False] "1.prems" by simp
      next
        case pos: True
        obtain mc2 e2 where d1: "readUntilEOF mc1 = (mc2, e2)"
          by fastforce
        obtain mc3 e3 where d2: "readUntilEOF mc2 = (mc3, e3)"
          by fastforce
        have "e2 = None \<and> e3 = None \<and> discardResults h mc = discardResults h mc3"
          using "1.prems" True hd Inr pos d1 d2
          by (subst (asm) discardResults.simps, subst discardResults.simps)
             (auto split: option.splits)
        then show ?thesis
          using "1.IH"(1) [OF True hd [symmetric] Inr pos d1 [symmetric] _ d2 [symmetric]]
            "1.prems" by simp
      qed
    qed
  qed
qed

text \<open>
  On a stream of two result sets none of whose packets but the EOF packets start with
  \<open>0xfe\<close>, \<open>mysqlRows.Close\<close> reads both to the end: the first EOF packet carries
  \<open>SERVER_MORE_RESULTS_EXISTS\<close>, the second clears it.
\<close>

lemma rowsClose_twoResults:
  "rowsClose noInfile \<lparr>hasMc = True, rsColumns = [], rsDone = False\<rparr>
       (conn0\<lparr>sequence := 5, rx := twoResults\<rparr>)
     = (\<lparr>hasMc = False, rsColumns = [], rsDone = False\<rparr>,
        conn0\<lparr>sequence := 12, affectedRows := [0], insertIds := [0]\<rparr>, None)"
  by (simp add: rowsClose_def isBroken_def conn0_def twoResults_def noInfile_def
        readUntilEOF.simps discardResults.simps readPacket_def readPacketLoop.simps
        readNext_def headerLen_def maxPacketSize_def appendPrev_def Let_def
        iERR_def iEOF_def iOK_def iLocalInFile_def readStatus_def statusMoreResultsExists_def
        readResultSetHeaderPacket_def readLengthEncodedInteger_def finish_def)

text \<open>
  C9 fails on the code. \<open>readUntilEOF\<close> ends at the first packet whose first byte is
  \<open>0xfe\<close>, whatever its length; the length 5 only decides whether the status word is
  read. A text row whose first field is \<open>2 ^ 24\<close> bytes long starts with \<open>0xfe\<close>. When
  \<open>mysqlRows.Close\<close> is called on a non-broken connection before that row was read, it
  takes the row for the end of the result set and returns without error, and the
  connection it leaves still has the second row and the EOF packet of the current result
  set on its stream.
\<close>

theorem rowsClose_row_first_byte_0xfe:
  "rowsClose noInfile blobRows (conn0\<lparr>sequence := 4, rx := bigRowResult\<rparr>)
     = (blobRows\<lparr>hasMc := False\<rparr>, conn0\<lparr>sequence := 6, rx := unreadPackets\<rparr>, None)"
proof -
  have ru: "readUntilEOF (conn0\<lparr>sequence := 4, rx := bigRowResult\<rparr>)
              = (conn0\<lparr>sequence := 6, rx := unreadPackets\<rparr>, None)"
    by (subst readUntilEOF.simps)
       (simp add: readPacket_bigRow bigRow_length bigRow_first bigRow_nonempty
          iERR_def iEOF_def)
  have st: "status conn0 = 0"
    by (simp add: conn0_def)
  have dr: "discardResults noInfile (conn0\<lparr>sequence := 6, rx := unreadPackets\<rparr>)
              = (conn0\<lparr>sequence := 6, rx := unreadPackets\<rparr>, None)"
    by (subst discardResults.simps) (simp add: st)
  have nb: "\<not> isBroken (conn0\<lparr>sequence := 4, rx := bigRowResult\<rparr>)"
    by (simp add: isBroken_def conn0_def)
  show ?thesis
    by (simp add: rowsClose_def nb ru dr finish_def blobRows_def)
qed

section \<open>Properties of the row readers\<close>

lemmas fieldType_defs =
  fieldTypeDecimal_def fieldTypeTiny_def fieldTypeShort_def fieldTypeLong_def
  fieldTypeFloat_def fieldTypeDouble_def fieldTypeNULL_def fieldTypeTimestamp_def
  fieldTypeLongLong_def fieldTypeInt24_def fieldTypeDate_def fieldTypeTime_def
  fieldTypeDateTime_def fieldTypeYear_def fieldTypeNewDate_def fieldTypeVarChar_def
  fieldTypeBit_def fieldTypeJSON_def fieldTypeNewDecimal_def fieldTypeEnum_def
  fieldTypeSet_def fieldTypeTinyBLOB_def fieldTypeMediumBLOB_def fieldTypeLongBLOB_def
  fieldTypeBLOB_def fieldTypeVarString_def fieldTypeString_def fieldTypeGeometry_def

text \<open>
  \<open>textRows.readRow\<close> tests the length as well as the first byte before it takes a packet
  for the EOF packet: on the stream above it decodes the big row as a row, where
  \<open>readUntilEOF\<close> takes it for the end of the result set.
\<close>

lemma textRows_readRow_bigRow:
  "textRows_readRow cv0 blobRows (conn0\<lparr>sequence := 4, rx := bigRowResult\<rparr>) [VNil]
     = (blobRows, conn0\<lparr>sequence := 6, rx := unreadPackets\<rparr>,
        [VBytes (replicate 16777216 0x61)], None)"
proof -
  have li: "readLengthEncodedInteger bigRow = Inr (16777216, False, 9)"
    by (simp add: readLengthEncodedInteger_def bigRow_def)
  have ls: "readLengthEncodedString bigRow = Inr (replicate 16777216 0x61, False, 16777225)"
    by (simp add: readLengthEncodedString_def li bigRow_length) (simp add: bigRow_def)
  have tv: "textValue cv0 False (mkField fieldTypeLongBLOB 0) b = (VBytes b, None)" for b
    by (simp add: textValue_def mkField_def fieldType_defs Let_def)
  have pt: "parseTime (conn0\<lparr>sequence := 6, rx := r\<rparr>) = False" for r
    by (simp add: conn0_def)
  show ?thesis
    by (simp add: textRows_readRow_def blobRows_def readPacket_bigRow bigRow_nonempty
        bigRow_length bigRow_first iEOF_def iERR_def ls tv pt)
qed

text \<open>
  C6 fails on the code for text rows. A column of type LONG with the UNSIGNED flag and the
  text \<open>3000000000\<close>: \<open>textRows.readRow\<close> parses TINY, SHORT, INT24, YEAR and LONG with
  \<open>ParseInt(..., 10, 32)\<close> without reading the flag, so the row fails with a range error
  instead of yielding the unsigned value.
\<close>

theorem textRows_readRow_unsigned_long:
  "textRows_readRow cv0 \<lparr>hasMc = True, rsColumns = [uintCol], rsDone = False\<rparr>
      (conn0\<lparr>rx := [11, 0, 0, 0, 10, 0x33, 0x30, 0x30, 0x30, 0x30, 0x30, 0x30, 0x30, 0x30, 0x30]\<rparr>) [VNil]
   = (\<lparr>hasMc = True, rsColumns = [uintCol], rsDone = False\<rparr>,
      conn0\<lparr>sequence := 1, rx := []\<rparr>, [VInt64 2147483647], Some ErrRange)"
  by (simp add: textRows_readRow_def conn0_def readPacket_def readPacketLoop.simps
        readNext_def headerLen_def maxPacketSize_def appendPrev_def Let_def
        iERR_def iEOF_def uintCol_def textValue_def fieldType_defs flagUnsigned_def
        readLengthEncodedString_def readLengthEncodedInteger_def ParseInt_def)

text \<open>
  The sibling path: \<open>binaryRows.readRow\<close> reads the flag for the same column and decodes
  the four bytes of 3000000000 as the unsigned value.
\<close>

lemma binaryRows_readRow_unsigned_long:
  "binaryRows_readRow cv0 \<lparr>hasMc = True, rsColumns = [uintCol], rsDone = False\<rparr>
      (conn0\<lparr>rx := [6, 0, 0, 0, 0x00, 0x00, 0x00, 0x5E, 0xD0, 0xB2]\<rparr>) [VNil]
   = (\<lparr>hasMc = True, rsColumns = [uintCol], rsDone = False\<rparr>,
      conn0\<lparr>sequence := 1, rx := []\<rparr>, 6, [VInt64 3000000000], None)"
  by (simp add: binaryRows_readRow_def conn0_def readPacket_def readPacketLoop.simps
        readNext_def headerLen_def maxPacketSize_def appendPrev_def Let_def
        iERR_def iEOF_def iOK_def uintCol_def binaryValue_def fieldType_defs flagUnsigned_def
        nullBit_def)

subsection \<open>What the binary decoder consumes\<close>

lemma nat_sint_unat:
  assumes "0 \<le> sint (w :: 64 word)"
  shows "nat (sint w) = unat w"
proof -
  have "sint w < 2 ^ 64"
    using sint_lt [of w] by simp
  then have "take_bit 64 (sint w) = sint w"
    using assms by (simp add: take_bit_int_eq_self)
  then have "uint w = sint w"
    using uint_sint [of w] by simp
  then show ?thesis
    by (metis nat_uint_eq)
qed

lemma nat_add_uint: "0 \<le> c \<Longrightarrow> nat (c + uint w) = nat c + unat w"
  using uint_nonnegative [of w] by (simp add: nat_add_distrib)

lemma LES_width:
  "readLengthEncodedString b = Inr (s, isNull, n) \<Longrightarrow>
   \<exists>num m. readLengthEncodedInteger b = Inr (num, isNull, m) \<and> 0 \<le> m
     \<and> nat n = (if isNull then nat m else nat m + unat num)"
  by (auto simp: readLengthEncodedString_def readLengthEncodedInteger_def nat_add_uint
      split: sum.splits prod.splits if_splits list.splits)

lemma LEI_n: "readLengthEncodedInteger b = Inr (num, isNull, n) \<Longrightarrow> 0 \<le> n"
  by (auto simp: readLengthEncodedInteger_def split: list.splits if_splits)

lemma binaryValue_width:
  assumes "lengthsChecked cv" and "binaryValue cv pt col data pos = Inr (v, pos')"
  shows "pos' = pos + valueWidth col (drop pos data)"
proof -
  consider (fixed) "fieldType col = fieldTypeNULL \<or> fieldType col = fieldTypeTiny \<or> fieldType col = fieldTypeShort
     \<or> fieldType col = fieldTypeYear \<or> fieldType col = fieldTypeInt24 \<or> fieldType col = fieldTypeLong
     \<or> fieldType col = fieldTypeFloat \<or> fieldType col = fieldTypeLongLong \<or> fieldType col = fieldTypeDouble"
    | (str) "fieldType col = fieldTypeDecimal \<or> fieldType col = fieldTypeNewDecimal \<or> fieldType col = fieldTypeVarChar
            \<or> fieldType col = fieldTypeBit \<or> fieldType col = fieldTypeEnum \<or> fieldType col = fieldTypeSet
            \<or> fieldType col = fieldTypeTinyBLOB \<or> fieldType col = fieldTypeMediumBLOB \<or> fieldType col = fieldTypeLongBLOB
            \<or> fieldType col = fieldTypeBLOB \<or> fieldType col = fieldTypeVarString \<or> fieldType col = fieldTypeString
            \<or> fieldType col = fieldTypeGeometry \<or> fieldType col = fieldTypeJSON"
    | (date) "fieldType col = fieldTypeDate \<or> fieldType col = fieldTypeNewDate \<or> fieldType col = fieldTypeTime
            \<or> fieldType col = fieldTypeTimestamp \<or> fieldType col = fieldTypeDateTime"
    | (other) "\<not> (fieldType col = fieldTypeNULL \<or> fieldType col = fieldTypeTiny \<or> fieldType col = fieldTypeShort
     \<or> fieldType col = fieldTypeYear \<or> fieldType col = fieldTypeInt24 \<or> fieldType col = fieldTypeLong
     \<or> fieldType col = fieldTypeFloat \<or> fieldType col = fieldTypeLongLong \<or> fieldType col = fieldTypeDouble
     \<or> fieldType col = fieldTypeDecimal \<or> fieldType col = fieldTypeNewDecimal \<or> fieldType col = fieldTypeVarChar
            \<or> fieldType col = fieldTypeBit \<or> fieldType col = fieldTypeEnum \<or> fieldType col = fieldTypeSet
            \<or> fieldType col = fieldTypeTinyBLOB \<or> fieldType col = fieldTypeMediumBLOB \<or> fieldType col = fieldTypeLongBLOB
            \<or> fieldType col = fieldTypeBLOB \<or> fieldType col = fieldTypeVarString \<or> fieldType col = fieldTypeString
            \<or> fieldType col = fieldTypeGeometry \<or> fieldType col = fieldTypeJSON
            \<or> fieldType col = fieldTypeDate \<or> fieldType col = fieldTypeNewDate \<or> fieldType col = fieldTypeTime
            \<or> fieldType col = fieldTypeTimestamp \<or> fieldType col = fieldTypeDateTime)"
    by blast
  then show ?thesis
  proof cases
    case fixed
    then show ?thesis
      using assms(2)
      by (elim disjE; simp add: binaryValue_def valueWidth_def Let_def fieldType_defs
            split: if_splits)
  next
    case str
    then have vw: "valueWidth col (drop pos data) =
        (case readLengthEncodedInteger (drop pos data) of
           Inl e \<Rightarrow> 0
         | Inr (num, isNull, n) \<Rightarrow> if isNull then nat n else nat n + unat num)"
      by (elim disjE; simp add: valueWidth_def Let_def fieldType_defs)
    from str have "\<exists>s isNull n. readLengthEncodedString (drop pos data) = Inr (s, isNull, n) \<and> pos' = pos + nat n"
      using assms(2)
      by (elim disjE; simp add: binaryValue_def Let_def fieldType_defs
            split: if_splits sum.splits prod.splits)
    then show ?thesis
      using vw by (auto dest!: LES_width)
  next
    case date
    then have vw: "valueWidth col (drop pos data) =
        (case readLengthEncodedInteger (drop pos data) of
           Inl e \<Rightarrow> 0
         | Inr (num, isNull, n) \<Rightarrow> if isNull then nat n else nat n + unat num)"
      by (elim disjE; simp add: valueWidth_def Let_def fieldType_defs)
    have unf: "binaryValue cv pt col data pos =
      (if length data < pos then Inl RuntimePanic
       else case readLengthEncodedInteger (drop pos data) of
              Inl e \<Rightarrow> Inl e
            | Inr (num, isNull, n) \<Rightarrow>
                let pos1 = pos + nat n
                in if isNull then Inr (VNil, pos1)
                   else if fieldType col = fieldTypeTime then
                     (case dstlenFor 8 (decimals col) of
                        Inl e \<Rightarrow> Inl e
                      | Inr dstlen \<Rightarrow>
                          if sint num < 0 \<or> int (length data) < int pos1 + sint num
                          then Inl RuntimePanic
                          else case formatBinaryTime cv
                                      (take (nat (sint num)) (drop pos1 data)) dstlen of
                            (v, Some e) \<Rightarrow> Inl e
                          | (v, None) \<Rightarrow> Inr (v, pos1 + nat (sint num)))
                   else if pt then
                     (if length data < pos1 then Inl RuntimePanic
                      else case parseBinaryDateTime cv num (drop pos1 data) of
                        (v, Some e) \<Rightarrow> Inl e
                      | (v, None) \<Rightarrow> Inr (v, nat (int pos1 + sint num)))
                   else
                     (case (if fieldType col = fieldTypeDate then Inr 10
                            else dstlenFor 19 (decimals col)) of
                        Inl e \<Rightarrow> Inl e
                      | Inr dstlen \<Rightarrow>
                          if sint num < 0 \<or> int (length data) < int pos1 + sint num
                          then Inl RuntimePanic
                          else case formatBinaryDateTime cv
                                      (take (nat (sint num)) (drop pos1 data)) dstlen of
                            (v, Some e) \<Rightarrow> Inl e
                          | (v, None) \<Rightarrow> Inr (v, pos1 + nat (sint num))))"
      using date unfolding binaryValue_def Let_def
      by (elim disjE; simp add: fieldType_defs)
    obtain num isNull n where lei: "readLengthEncodedInteger (drop pos data) = Inr (num, isNull, n)"
      using assms(2) unfolding unf by (auto split: if_splits sum.splits)
    have n0: "0 \<le> n"
      using LEI_n [OF lei] .
    have "pos' = (if isNull then pos + nat n else pos + nat n + unat num)"
    proof (cases isNull)
      case True
      then show ?thesis
        using assms(2) lei unfolding unf by (simp split: if_splits)
    next
      case notNull: False
      show ?thesis
      proof (cases "fieldType col = fieldTypeTime \<or> \<not> pt")
        case True
        then show ?thesis
          using assms(2) lei notNull unfolding unf Let_def
          by (auto simp: nat_sint_unat split: if_splits sum.splits prod.splits option.splits)
      next
        case False
        then obtain w where p: "parseBinaryDateTime cv num (drop (pos + nat n) data) = (w, None)"
          and pos': "pos' = nat (int (pos + nat n) + sint num)"
          using assms(2) lei notNull unfolding unf Let_def
          by (auto split: if_splits sum.splits prod.splits option.splits)
        have "num = 0 \<or> num = 4 \<or> num = 7 \<or> num = 11"
          using assms(1) p unfolding lengthsChecked_def by blast
        then show ?thesis
          using pos' notNull n0 by auto
      qed
    qed
    then show ?thesis
      using vw lei by simp
  next
    case other
    then show ?thesis
      using assms(2) by (simp add: binaryValue_def Let_def)
  qed
qed

lemma binaryRowLoop_pos:
  assumes "lengthsChecked cv"
  shows "binaryRowLoop cv pt cols data nm js pos dest = (pos', dest', None) \<Longrightarrow>
         pos' = pos + sum_list (specWidths cols data nm js pos)"
proof (induction js arbitrary: pos dest)
  case Nil
  then show ?case by simp
next
  case (Cons i js)
  show ?case
  proof (cases "nullBit nm i")
    case True
    then show ?thesis
      using Cons.IH [of pos "dest[i := VNil]"] Cons.prems by simp
  next
    case False
    then obtain v pos1 where bv: "binaryValue cv pt (cols ! i) data pos = Inr (v, pos1)"
      and rest: "binaryRowLoop cv pt cols data nm js pos1 (dest[i := v]) = (pos', dest', None)"
      using Cons.prems by (auto split: if_splits sum.splits)
    have "pos1 = pos + valueWidth (cols ! i) (drop pos data)"
      using binaryValue_width [OF assms bv] .
    then show ?thesis
      using Cons.IH [OF rest] False by (simp add: Let_def)
  qed
qed

lemma binaryRowLoop_keeps:
  "binaryRowLoop cv pt cols data nm js pos dest = (pos', dest', e) \<Longrightarrow>
     length dest' = length dest \<and> (\<forall>i. i \<notin> set js \<longrightarrow> dest' ! i = dest ! i)"
proof (induction js arbitrary: pos dest)
  case Nil
  then show ?case by simp
next
  case (Cons j js)
  show ?case
  proof (cases "nullBit nm j")
    case True
    then show ?thesis
      using Cons.IH [of pos "dest[j := VNil]"] Cons.prems by auto
  next
    case False
    show ?thesis
    proof (cases "length cols \<le> j \<or> (\<exists>e. binaryValue cv pt (cols ! j) data pos = Inl e)")
      case True
      then show ?thesis
        using Cons.prems False by (auto split: if_splits)
    next
      case noerr: False
      then obtain v pos1 where bv: "binaryValue cv pt (cols ! j) data pos = Inr (v, pos1)"
        by (cases "binaryValue cv pt (cols ! j) data pos") auto
      then have "binaryRowLoop cv pt cols data nm js pos1 (dest[j := v]) = (pos', dest', e)"
        using Cons.prems False noerr by simp
      then show ?thesis
        using Cons.IH [of pos1 "dest[j := v]"] by auto
    qed
  qed
qed

lemma binaryRowLoop_null:
  "binaryRowLoop cv pt cols data nm js pos dest = (pos', dest', None) \<Longrightarrow>
     distinct js \<Longrightarrow> i \<in> set js \<Longrightarrow> i < length dest \<Longrightarrow> nullBit nm i \<Longrightarrow> dest' ! i = VNil"
proof (induction js arbitrary: pos dest)
  case Nil
  then show ?case by simp
next
  case (Cons j js)
  show ?case
  proof (cases "nullBit nm j")
    case True
    then have rest: "binaryRowLoop cv pt cols data nm js pos (dest[j := VNil]) = (pos', dest', None)"
      using Cons.prems(1) by simp
    show ?thesis
    proof (cases "i = j")
      case True
      then have "i \<notin> set js" using Cons.prems(2) by simp
      then show ?thesis
        using binaryRowLoop_keeps [OF rest] True Cons.prems(4) by simp
    next
      case False
      then show ?thesis
        using Cons.IH [OF rest] Cons.prems by simp
    qed
  next
    case False
    then obtain v pos1 where
      rest: "binaryRowLoop cv pt cols data nm js pos1 (dest[j := v]) = (pos', dest', None)"
      using Cons.prems(1) by (auto split: if_splits sum.splits)
    have "i \<noteq> j" using False Cons.prems(5) by auto
    then show ?thesis
      using Cons.IH [OF rest] Cons.prems by simp
  qed
qed

lemma lengthsChecked_cv1: "lengthsChecked cv1"
  by (simp add: lengthsChecked_def cv1_def split: if_splits)

lemma binaryRows_readRow_three_columns:
  "binaryRows_readRow cv1 rows3 (conn0\<lparr>rx := [6, 0, 0, 0, 0x00, 0x08, 0xFF, 0x02, 0x68, 0x69]\<rparr>)
      [VNil, VNil, VNil]
   = (rows3, conn0\<lparr>sequence := 1, rx := []\<rparr>, 6, [VInt64 255, VNil, VBytes [0x68, 0x69]], None)"
  by (simp add: binaryRows_readRow_def conn0_def readPacket_def readPacketLoop.simps
        readNext_def headerLen_def maxPacketSize_def appendPrev_def Let_def rows3_def mkField_def
        iERR_def iEOF_def iOK_def binaryValue_def fieldType_defs flagUnsigned_def
        nullBit_def readLengthEncodedString_def readLengthEncodedInteger_def upt_rec)

lemma readPacket_three_columns: "readPacket (conn0\<lparr>rx := [6, 0, 0, 0, 0x00, 0x08, 0xFF, 0x02, 0x68, 0x69]\<rparr>)
   = (conn0\<lparr>sequence := 1, rx := []\<rparr>, Inr [0x00, 0x08, 0xFF, 0x02, 0x68, 0x69])"
  by (simp add: conn0_def readPacket_def readPacketLoop.simps
        readNext_def headerLen_def maxPacketSize_def appendPrev_def Let_def)

text \<open>
  C2: when \<open>binaryRows.readRow\<close> decodes a row packet over \<open>k = len(dest)\<close> columns
  without error, the packet starts with the byte 0x00 and the position the decoder has
  reached is \<open>1 + (k + 2 + 7) / 8\<close> plus the sum of the widths of the columns: the NULL
  bitmap is the \<open>(k + 2 + 7) / 8\<close> bytes after the first, a column whose bit \<open>i + 2\<close> is
  set in it decodes to NULL and takes no bytes, and every other column takes the width of
  its type.
\<close>

theorem binaryRows_readRow_consumes:
  assumes "lengthsChecked cv"
    and "binaryRows_readRow cv rows mc dest = (rows', mc', pos, dest', None)"
  shows "\<exists>data. readPacket mc = (mc', Inr data) \<and> data \<noteq> [] \<and> data ! 0 = 0x00
           \<and> pos = 1 + (length dest + 2 + 7) div 8
               + sum_list (specWidths (rsColumns rows) data
                    (take ((length dest + 2 + 7) div 8) (drop 1 data)) [0..<length dest]
                    (1 + (length dest + 2 + 7) div 8))
           \<and> (\<forall>i < length dest.
                 nullBit (take ((length dest + 2 + 7) div 8) (drop 1 data)) i \<longrightarrow> dest' ! i = VNil)"
proof -
  obtain mc1 r where rp: "readPacket mc = (mc1, r)"
    by fastforce
  obtain data where r: "r = Inr data"
    using assms(2) rp by (cases r) (auto simp: binaryRows_readRow_def)
  have ne: "data \<noteq> []" and ok: "data ! 0 = iOK"
    using assms(2) rp r
    by (auto simp: binaryRows_readRow_def split: if_splits sum.splits prod.splits)
  let ?m = "(length dest + 2 + 7) div 8"
  have loop: "binaryRowLoop cv (parseTime mc1) (rsColumns rows) data (take ?m (drop 1 data))
                [0..<length dest] (1 + ?m) dest = (pos, dest', None)"
    and mc': "mc' = mc1"
    using assms(2) rp r ne ok
    by (auto simp: binaryRows_readRow_def Let_def add.commute split: if_splits prod.splits)
  have "pos = 1 + ?m + sum_list (specWidths (rsColumns rows) data (take ?m (drop 1 data))
                [0..<length dest] (1 + ?m))"
    using binaryRowLoop_pos [OF assms(1) loop] .
  moreover have "\<forall>i < length dest. nullBit (take ?m (drop 1 data)) i \<longrightarrow> dest' ! i = VNil"
    using binaryRowLoop_null [OF loop] by simp
  ultimately show ?thesis
    using rp r ne ok mc' by (simp add: iOK_def)
qed

theorem binaryRows_readRow_consumes_witness:
  "lengthsChecked cv1
   \<and> binaryRows_readRow cv1 rows3
        (conn0\<lparr>rx := [6, 0, 0, 0, 0x00, 0x08, 0xFF, 0x02, 0x68, 0x69]\<rparr>) [VNil, VNil, VNil]
      = (rows3, conn0\<lparr>sequence := 1, rx := []\<rparr>, 6,
         [VInt64 255, VNil, VBytes [0x68, 0x69]], None)
   \<and> (6 :: nat) = 1 + (3 + 2 + 7) div 8
         + sum_list (specWidths (rsColumns rows3) [0x00, 0x08, 0xFF, 0x02, 0x68, 0x69]
              [0x08] [0, 1, 2] 2)
   \<and> specWidths (rsColumns rows3) [0x00, 0x08, 0xFF, 0x02, 0x68, 0x69] [0x08] [0, 1, 2] 2
        = [1, 0, 3]"
  using binaryRows_readRow_consumes [OF lengthsChecked_cv1 binaryRows_readRow_three_columns] lengthsChecked_cv1 binaryRows_readRow_three_columns
  by (simp add: readPacket_three_columns upt_rec rows3_def mkField_def valueWidth_def nullBit_def fieldType_defs
      readLengthEncodedInteger_def Let_def)

section \<open>Properties of writeExecutePacket\<close>

lemma leBytes_42: "leBytes 8 42 = [42, 0, 0, 0, 0, 0, 0, 0]"
  by (simp add: leBytes_def upt_rec)

lemma split28:
  "28 \<le> length (xs :: byte list) \<Longrightarrow>
   \<exists>a0 a1 a2 a3 a4 a5 a6 a7 a8 a9 a10 a11 a12 a13 a14 a15 a16 a17 a18 a19 a20 a21 a22 a23
      a24 a25 a26 a27 rest.
     xs = a0 # a1 # a2 # a3 # a4 # a5 # a6 # a7 # a8 # a9 # a10 # a11 # a12 # a13 # a14 # a15
          # a16 # a17 # a18 # a19 # a20 # a21 # a22 # a23 # a24 # a25 # a26 # a27 # rest"
  by (auto simp: eval_nat_numeral Suc_le_length_iff)

lemma list_update_Cons_numeral:
  "(x # xs)[numeral k := y] = x # xs[pred_numeral k := y]"
  by (simp add: numeral_eq_Suc)

lemma execute_data:
  assumes "28 \<le> length b"
  shows "execArgs stmt lds 16 20 0 [VNil, VInt64 42] mc
           ((putBytes (b[4 := c4, 5 := c5, 6 := c6, 7 := c7, 8 := c8, 9 := 0x00,
                          10 := 0x01, 11 := 0x00, 12 := 0x00, 13 := 0x00]) 14 (make_bytes 1))
              [15 := 0x01], [], False)
         = Some (Inr (mc, take 4 b @ [c4, c5, c6, c7, c8, 0x00, 0x01, 0, 0, 0, 0x01, 0x01,
                                       0x06, 0x00, 0x08, 0x00, 42, 0, 0, 0, 0, 0, 0, 0]
                           @ drop 28 b,
                      [42, 0, 0, 0, 0, 0, 0, 0], False))"
proof -
  obtain a0 a1 a2 a3 a4 a5 a6 a7 a8 a9 a10 a11 a12 a13 a14 a15 a16 a17 a18 a19 a20 a21 a22 a23
      a24 a25 a26 a27 rest where
    b: "b = a0 # a1 # a2 # a3 # a4 # a5 # a6 # a7 # a8 # a9 # a10 # a11 # a12 # a13 # a14 # a15
          # a16 # a17 # a18 # a19 # a20 # a21 # a22 # a23 # a24 # a25 # a26 # a27 # rest"
    using split28 [OF assms] by (elim exE) (rule that)
  show ?thesis
    unfolding b
    by (simp add: execArg_def setNull_def setType_def appendValues_def leBytes_42 make_bytes_def
        fieldTypeNULL_def fieldTypeLongLong_def list_update_Cons_numeral)
qed

text \<open>
  C4: for a statement with two parameters executed with the arguments NULL and the int64
  42, on an idle primary buffer (of at least 28 bytes; it never has fewer than 4096), a
  socket that accepts every write and \<open>maxAllowedPacket\<close> of at least 24,
  \<open>writeExecutePacket\<close> succeeds and puts on the wire one packet with sequence byte 0 whose
  24 payload bytes are: the command byte \<open>COM_STMT_EXECUTE\<close>, the statement id in four
  bytes little-endian, the flags byte 0x00, the iteration count 0x01 0x00 0x00 0x00, the
  NULL bitmap 0x01, the new-parameter-bound flag 0x01, the types 0x06 0x00 and 0x08 0x00,
  and the value bytes 42 0 0 0 0 0 0 0.
\<close>

theorem writeExecutePacket_null_int:
  assumes "paramCount stmt = 2" and "lengthb (connBuf mc) \<le> 0"
    and "28 \<le> length (buf (connBuf mc))" and "netWrite mc = acceptAll"
    and "24 \<le> maxAllowedPacket mc"
  shows "writeExecutePacket grow stmt mc [VNil, VInt64 42] =
    Some (mc\<lparr>sequence := 1,
              wire := wire mc @ [24, 0, 0, 0] @
                [comStmtExecute,
                 ucast (stmtId stmt), ucast (drop_bit 8 (stmtId stmt)),
                 ucast (drop_bit 16 (stmtId stmt)), ucast (drop_bit 24 (stmtId stmt)),
                 0x00, 0x01, 0x00, 0x00, 0x00, 0x01, 0x01, 0x06, 0x00, 0x08, 0x00,
                 42, 0, 0, 0, 0, 0, 0, 0],
              nwrites := Suc (nwrites mc)\<rparr>, None)"
proof -
  let ?b = "buf (connBuf mc)"
  let ?payload = "[comStmtExecute,
                 ucast (stmtId stmt), ucast (drop_bit 8 (stmtId stmt)),
                 ucast (drop_bit 16 (stmtId stmt)), ucast (drop_bit 24 (stmtId stmt)),
                 0x00, 0x01, 0x00, 0x00, 0x00, 0x01, 0x01, 0x06, 0x00, 0x08, 0x00,
                 42, 0, 0, 0, 0, 0, 0, 0 :: byte]"
  let ?mc0 = "mc\<lparr>sequence := 0\<rparr>"
  have args: "execArgs stmt lds 16 20 0 [VNil, VInt64 42] ?mc0
           ((putBytes (?b[4 := comStmtExecute, 5 := ucast (stmtId stmt),
                          6 := ucast (drop_bit 8 (stmtId stmt)),
                          7 := ucast (drop_bit 16 (stmtId stmt)),
                          8 := ucast (drop_bit 24 (stmtId stmt)), 9 := 0x00,
                          10 := 0x01, 11 := 0x00, 12 := 0x00, 13 := 0x00]) 14 (make_bytes (Suc 0)))
              [15 := 0x01], [], False)
         = Some (Inr (?mc0, take 4 ?b @ ?payload @ drop 28 ?b,
                      [42, 0, 0, 0, 0, 0, 0, 0], False))" for lds
    using execute_data [OF assms(3), where stmt = stmt and lds = lds and mc = ?mc0
        and ?c4.0 = comStmtExecute and ?c5.0 = "ucast (stmtId stmt)"
        and ?c6.0 = "ucast (drop_bit 8 (stmtId stmt))"
        and ?c7.0 = "ucast (drop_bit 16 (stmtId stmt))"
        and ?c8.0 = "ucast (drop_bit 24 (stmtId stmt))"]
    by simp
  have tk: "take 28 (take 4 ?b @ ?payload @ drop 28 ?b) = take 4 ?b @ ?payload"
    using assms(3) by simp
  have wp: "writePacket ?mc0 (take 4 ?b @ ?payload) =
      (?mc0\<lparr>wire := wire ?mc0 @ putHeader 24 (sequence ?mc0) (take 4 ?b @ ?payload),
            nwrites := Suc (nwrites ?mc0), sequence := sequence ?mc0 + 1\<rparr>, None)"
    using writePacketLoop_last [of ?mc0 "take 4 ?b @ ?payload" 24] assms(3,4,5)
    by (simp add: writePacket_def maxPacketSize_def)
  have hdr: "putHeader 24 0 (take 4 ?b @ ?payload) = [24, 0, 0, 0] @ ?payload"
    using putHeader_split [of "take 4 ?b @ ?payload" 24 0] assms(3)
    by (simp add: maxPacketSize_def)
  show ?thesis
    using assms(1,2,3)
    by (simp add: writeExecutePacket_def takeCompleteBuffer_def arr_def len_def Let_def
        args tk wp hdr del: execArgs.simps)
qed

theorem writeExecutePacket_null_int_witness:
  "paramCount stmt0 = 2 \<and> lengthb (connBuf conn0) \<le> 0 \<and> 28 \<le> length (buf (connBuf conn0))
   \<and> netWrite conn0 = acceptAll \<and> 24 \<le> maxAllowedPacket conn0
   \<and> writeExecutePacket growDouble stmt0 conn0 [VNil, VInt64 42] =
       Some (conn0\<lparr>sequence := 1,
                   wire := [24, 0, 0, 0, 0x17, 0x04, 0x03, 0x02, 0x01, 0x00, 0x01, 0x00, 0x00, 0x00,
                            0x01, 0x01, 0x06, 0x00, 0x08, 0x00, 42, 0, 0, 0, 0, 0, 0, 0],
                   nwrites := 1\<rparr>, None)"
  using writeExecutePacket_null_int [of stmt0 conn0 growDouble]
  by (simp add: stmt0_def conn0_def newBuffer_def defaultBufSize_def make_bytes_def
      comStmtExecute_def)

end
